theory Spec2Isabelle
  imports Complex_Main "HOL-Library.Word"
begin

section \<open>Floating-point operations\<close>

text \<open>
  The C++ types \<open>double\<close>, \<open>qreal\<close> and \<open>ColumnWidthType\<close> are IEEE doubles. Their
  values are kept abstract (a type variable \<open>'q\<close>) and the operations the code applies to
  them are the fields of a record that every function working on doubles takes as its
  first argument. A theorem proved for an arbitrary \<open>ops\<close> holds for the IEEE operations
  in particular.
\<close>

record 'q fp_ops =
  fp_of_rat :: "rat \<Rightarrow> 'q"           \<comment> \<open>a literal, or the conversion \<open>qreal(n)\<close> of an integer\<close>
  fp_add :: "'q \<Rightarrow> 'q \<Rightarrow> 'q"
  fp_sub :: "'q \<Rightarrow> 'q \<Rightarrow> 'q"
  fp_mul :: "'q \<Rightarrow> 'q \<Rightarrow> 'q"
  fp_div :: "'q \<Rightarrow> 'q \<Rightarrow> 'q"
  fp_eq :: "'q \<Rightarrow> 'q \<Rightarrow> bool"         \<comment> \<open>\<open>==\<close> on doubles\<close>
  fp_fuzzy :: "'q \<Rightarrow> 'q \<Rightarrow> bool"      \<comment> \<open>\<open>qFuzzyCompare\<close>\<close>
  fp_to_int :: "'q \<Rightarrow> int"            \<comment> \<open>the implicit conversion \<open>int pixels = w * width()\<close>\<close>
  fp_qRound :: "'q \<Rightarrow> int"            \<comment> \<open>\<open>qRound\<close>\<close>

text \<open>Exact rational arithmetic, the instance used to evaluate concrete inputs.\<close>

definition qRound_rat :: "rat \<Rightarrow> int" where
  "qRound_rat d = (if d \<ge> 0 then \<lfloor>d + 1 / 2\<rfloor> else - \<lfloor>- d + 1 / 2\<rfloor>)"

definition trunc_rat :: "rat \<Rightarrow> int" where
  "trunc_rat d = (if d \<ge> 0 then \<lfloor>d\<rfloor> else - \<lfloor>- d\<rfloor>)"

definition qFuzzyCompare_rat :: "rat \<Rightarrow> rat \<Rightarrow> bool" where
  "qFuzzyCompare_rat p1 p2 = (\<bar>p1 - p2\<bar> * 1000000000000 \<le> min \<bar>p1\<bar> \<bar>p2\<bar>)"

definition rat_ops :: "rat fp_ops" where
  "rat_ops = \<lparr> fp_of_rat = (\<lambda>r. r), fp_add = (+), fp_sub = (-), fp_mul = (*),
               fp_div = (/), fp_eq = (=), fp_fuzzy = qFuzzyCompare_rat,
               fp_to_int = trunc_rat, fp_qRound = qRound_rat \<rparr>"


section \<open>The GStreamer pipeline wrapper (src/engine/gstenginepipeline.cpp)\<close>

text \<open>
  Member variables are written without the trailing underscore of the source
  (\<open>buffering_\<close> is the field \<open>buffering\<close>).
\<close>

datatype GstState =
  GST_STATE_VOID_PENDING | GST_STATE_NULL | GST_STATE_READY | GST_STATE_PAUSED | GST_STATE_PLAYING

datatype Direction = Forward | Backward

datatype TimeLineState = NotRunning | Paused | Running


text \<open>
  What the pipeline does to the outside world, in order: the Qt signals it emits and the
  calls it makes on GStreamer objects.
\<close>

datatype action =
    Emit_BufferingStarted
  | Emit_BufferingFinished
  | Emit_BufferingProgress int
  | Call_SetState GstState              \<comment> \<open>\<open>SetState(s)\<close>: queues \<open>gst_element_set_state\<close>\<close>
  | Set_uri string                      \<comment> \<open>\<open>g_object_set(pipeline_, "uri", ...)\<close>\<close>

record ('t, 'q) GstEnginePipeline =
  pipeline :: bool                      \<comment> \<open>the playbin pointer is not null\<close>
  element_state :: "GstState option"    \<comment> \<open>what \<open>gst_element_get_state\<close> reports; \<open>None\<close> is
                                            \<open>GST_STATE_CHANGE_FAILURE\<close>\<close>
  audioqueue :: nat                     \<comment> \<open>the address of the queue2 element of the audiobin\<close>
  buffering :: bool
  stream_url :: string
  next_stream_url :: string
  next_original_url :: string
  next_beginning_offset_nanosec :: int
  next_end_offset_nanosec :: int
  next_uri_set :: bool
  volume :: bool                        \<comment> \<open>the volume element pointer is not null\<close>
  volume_property :: 'q                 \<comment> \<open>the "volume" property of the volume element\<close>
  volume_percent :: int
  volume_modifier :: 'q
  fader :: "'t option"                  \<comment> \<open>\<open>std::unique_ptr<QTimeLine>\<close>\<close>
  fader_fudge_timer :: bool             \<comment> \<open>the fudge timer is active\<close>
  use_fudge_timer :: bool
  actions :: "action list"

definition do_action :: "action \<Rightarrow> ('t, 'q) GstEnginePipeline \<Rightarrow> ('t, 'q) GstEnginePipeline" where
  "do_action a p = p\<lparr>actions := actions p @ [a]\<rparr>"

definition state :: "('t, 'q) GstEnginePipeline \<Rightarrow> GstState" where
  "state p =
     (if \<not> pipeline p then GST_STATE_NULL
      else case element_state p of None \<Rightarrow> GST_STATE_NULL | Some s \<Rightarrow> s)"

definition SetState :: "GstState \<Rightarrow> ('t, 'q) GstEnginePipeline \<Rightarrow> ('t, 'q) GstEnginePipeline" where
  "SetState s p = do_action (Call_SetState s) p"

subsection \<open>Buffering\<close>

record GstMessage =
  msg_src :: nat                        \<comment> \<open>\<open>GST_MESSAGE_SRC(msg)\<close>\<close>
  msg_percent :: int                    \<comment> \<open>what \<open>gst_message_parse_buffering\<close> stores\<close>

definition BufferingMessageReceived ::
  "GstMessage \<Rightarrow> ('t, 'q) GstEnginePipeline \<Rightarrow> ('t, 'q) GstEnginePipeline" where
  "BufferingMessageReceived msg p =
     (if msg_src msg \<noteq> audioqueue p then p
      else
        let percent = msg_percent msg;
            current_state = state p
        in if percent = 0 \<and> current_state = GST_STATE_PLAYING \<and> \<not> buffering p then
             SetState GST_STATE_PAUSED (do_action Emit_BufferingStarted (p\<lparr>buffering := True\<rparr>))
           else if percent = 100 \<and> buffering p then
             SetState GST_STATE_PLAYING (do_action Emit_BufferingFinished (p\<lparr>buffering := False\<rparr>))
           else if buffering p then
             do_action (Emit_BufferingProgress percent) p
           else p)"

subsection \<open>Gapless playback\<close>

definition SetNextUrl ::
  "string \<Rightarrow> string \<Rightarrow> int \<Rightarrow> int \<Rightarrow> ('t, 'q) GstEnginePipeline \<Rightarrow> ('t, 'q) GstEnginePipeline" where
  "SetNextUrl new_stream_url new_original_url beginning_nanosec end_nanosec p =
     p\<lparr>next_stream_url := new_stream_url,
       next_original_url := new_original_url,
       next_beginning_offset_nanosec := beginning_nanosec,
       next_end_offset_nanosec := end_nanosec\<rparr>"

text \<open>
  \<open>has_next_valid_url()\<close> is declared in gstenginepipeline.h, which is not among the
  sources; it is the parameter \<open>has_next_valid_url\<close>, any predicate on the pipeline.
\<close>

definition AboutToFinishCallback ::
  "(('t, 'q) GstEnginePipeline \<Rightarrow> bool) \<Rightarrow> ('t, 'q) GstEnginePipeline \<Rightarrow> ('t, 'q) GstEnginePipeline" where
  "AboutToFinishCallback has_next_valid_url instance =
     (if has_next_valid_url instance \<and> \<not> next_uri_set instance then
        (let instance1 = instance\<lparr>next_uri_set := True\<rparr>
         in do_action (Set_uri (next_stream_url instance1)) instance1)
      else instance)"

text \<open>The number of times the playbin's uri property has been assigned.\<close>

fun is_Set_uri :: "action \<Rightarrow> bool" where
  "is_Set_uri (Set_uri u) = True"
| "is_Set_uri _ = False"

definition uri_assignments :: "('t, 'q) GstEnginePipeline \<Rightarrow> nat" where
  "uri_assignments p = length (filter is_Set_uri (actions p))"

text \<open>
  A run of the gapless machinery: about-to-finish callbacks from the playbin, with calls
  of \<open>SetNextUrl\<close> by the engine in between.
\<close>

datatype gapless_op = AboutToFinish | NextUrl string string int int

fun gapless_step ::
  "(('t, 'q) GstEnginePipeline \<Rightarrow> bool) \<Rightarrow> gapless_op \<Rightarrow> ('t, 'q) GstEnginePipeline \<Rightarrow> ('t, 'q) GstEnginePipeline" where
  "gapless_step v AboutToFinish p = AboutToFinishCallback v p"
| "gapless_step v (NextUrl s orig b e) p = SetNextUrl s orig b e p"

fun gapless_run ::
  "(('t, 'q) GstEnginePipeline \<Rightarrow> bool) \<Rightarrow> gapless_op list \<Rightarrow> ('t, 'q) GstEnginePipeline \<Rightarrow> ('t, 'q) GstEnginePipeline" where
  "gapless_run v [] p = p"
| "gapless_run v (x # xs) p = gapless_run v xs (gapless_step v x p)"

subsection \<open>Fading\<close>


text \<open>The conversion of a \<open>qint64\<close> to the \<open>int\<close> parameter of a Qt function.\<close>

definition to_int32 :: "int \<Rightarrow> int" where
  "to_int32 x = sint (word_of_int x :: 32 word)"





text \<open>
  An instance of the timeline functions for evaluating \<open>StartFader\<close>: a timeline is the
  record of its properties, and its value is linear in the time.
\<close>

record QTimeLine =
  duration :: int
  currentTime :: int
  direction :: Direction
  easingCurve :: int
  tl_running :: TimeLineState


text \<open>A pipeline state for evaluating the functions above.\<close>

definition pipeline0 :: "(QTimeLine, rat) GstEnginePipeline" where
  "pipeline0 = \<lparr> pipeline = True, element_state = Some GST_STATE_PLAYING, audioqueue = 7,
     buffering = False, stream_url = ''file:///a.flac'', next_stream_url = ''file:///b.flac'',
     next_original_url = ''file:///b.flac'', next_beginning_offset_nanosec = 0,
     next_end_offset_nanosec = 0, next_uri_set = False, volume = True, volume_property = 1, volume_percent = 100,
     volume_modifier = 1, fader = None, fader_fudge_timer = False, use_fudge_timer = False,
     actions = [] \<rparr>"








section \<open>The playlist backend (src/playlist/playlistbackend.cpp)\<close>

subsection \<open>The database\<close>

text \<open>
  The two tables the backend writes. A row of \<open>playlists\<close> has the columns the queries
  of the backend name. A row of \<open>playlist_items\<close> has the playlist it belongs to and the
  values \<open>PlaylistItem::BindToQuery\<close> binds (type, collection id and the song columns),
  which are kept as one value of type \<open>'c\<close>. Each table is the list of its rows in the
  order of their ROWIDs: SQLite gives a new row a ROWID above all others, and returns the
  rows of a table in that order when the query has no ORDER BY. The table \<open>songs\<close>, which
  \<open>GetPlaylistItems\<close> joins to each row, is not written by the functions modelled here:
  what it adds to a row is part of how an item is rebuilt from the row (\<open>NewFromRow\<close>
  below).
\<close>

record playlist_row =
  ROWID :: int
  name :: string
  last_played :: int
  special_type :: string
  ui_path :: string
  ui_order :: int
  is_favorite :: bool
  dynamic_playlist_type :: int
  dynamic_playlist_data :: string
  dynamic_playlist_backend :: string

record 'c item_row =
  item_playlist :: int
  item_cols :: 'c

record 'c database =
  playlists :: "playlist_row list"
  playlist_items :: "'c item_row list"

text \<open>
  The SQL statements of \<open>SavePlaylist\<close>, \<open>RemovePlaylist\<close> and \<open>GetPlaylistItems\<close>.
  The parameter \<open>id\<close> of \<open>RemovePlaylist\<close> is written \<open>playlist_id\<close>.
\<close>

definition sql_delete_items :: "int \<Rightarrow> 'c database \<Rightarrow> 'c database" where
  \<comment> \<open>\<open>DELETE FROM playlist_items WHERE playlist = :playlist\<close>\<close>
  "sql_delete_items playlist db =
     db\<lparr>playlist_items := filter (\<lambda>r. item_playlist r \<noteq> playlist) (playlist_items db)\<rparr>"

definition sql_insert_item :: "int \<Rightarrow> 'c \<Rightarrow> 'c database \<Rightarrow> 'c database" where
  \<comment> \<open>\<open>INSERT INTO playlist_items (playlist, type, collection_id, ...) VALUES (...)\<close>\<close>
  "sql_insert_item playlist cols db =
     db\<lparr>playlist_items := playlist_items db @ [\<lparr>item_playlist = playlist, item_cols = cols\<rparr>]\<rparr>"

definition sql_update_playlist ::
  "int \<Rightarrow> int \<Rightarrow> int \<Rightarrow> string \<Rightarrow> string \<Rightarrow> 'c database \<Rightarrow> 'c database" where
  \<comment> \<open>\<open>UPDATE playlists SET last_played=..., dynamic_playlist_type=...,
      dynamic_playlist_data=..., dynamic_playlist_backend=... WHERE ROWID=:playlist\<close>\<close>
  "sql_update_playlist playlist lp dtype ddata dbackend db =
     db\<lparr>playlists :=
          map (\<lambda>r. if ROWID r = playlist
                    then r\<lparr>last_played := lp, dynamic_playlist_type := dtype,
                           dynamic_playlist_data := ddata, dynamic_playlist_backend := dbackend\<rparr>
                    else r)
              (playlists db)\<rparr>"

definition sql_delete_playlist :: "int \<Rightarrow> 'c database \<Rightarrow> 'c database" where
  \<comment> \<open>\<open>DELETE FROM playlists WHERE ROWID=:id\<close>\<close>
  "sql_delete_playlist playlist_id db =
     db\<lparr>playlists := filter (\<lambda>r. ROWID r \<noteq> playlist_id) (playlists db)\<rparr>"


text \<open>
  \<open>q.Exec()\<close>: the statement either succeeds and takes effect, or fails and changes
  nothing. Whether the \<open>n\<close>-th statement of a call succeeds is given by a function
  \<open>ok :: nat \<Rightarrow> bool\<close>, an argument of the model of the call.
\<close>

definition Exec :: "bool \<Rightarrow> ('db \<Rightarrow> 'db) \<Rightarrow> 'db \<Rightarrow> 'db option" where
  "Exec succeeds stmt db = (if succeeds then Some (stmt db) else None)"

text \<open>
  Modelled from the spec: \<open>ScopedTransaction\<close> (core/scopedtransaction.h and .cpp are not
  among the sources). Its constructor begins a transaction on the connection, \<open>Commit()\<close>
  commits it, and its destructor rolls back a transaction that has not been committed.
  The body of a function that holds a \<open>ScopedTransaction\<close> runs on the database as it
  was at the start and either reaches \<open>Commit()\<close> or returns before.
\<close>

datatype 'db scope_exit = Commit 'db | Return_early 'db

definition ScopedTransaction :: "('db \<Rightarrow> 'db scope_exit) \<Rightarrow> 'db \<Rightarrow> 'db" where
  "ScopedTransaction body db =
     (case body db of Commit db' \<Rightarrow> db' | Return_early db' \<Rightarrow> db)"

subsection \<open>Playlist items\<close>

text \<open>
  \<open>PlaylistItem\<close>, \<open>Song\<close>, \<open>CueParser\<close> and \<open>QFile\<close> are not among the sources. Items are
  values of a type \<open>'i\<close> and songs of a type \<open>'s\<close>; the member functions the backend calls
  on them, and the two file operations, are the fields of a record.
\<close>

record ('i, 's, 'c) item_api =
  BindToQuery :: "'i \<Rightarrow> 'c"               \<comment> \<open>the values \<open>item->BindToQuery(&q)\<close> binds\<close>
  NewFromRow :: "'c \<Rightarrow> 'i option"          \<comment> \<open>\<open>PlaylistItem::NewFromSource\<close> on the type column of the
                                              row (\<open>None\<close> is a null pointer), then
                                              \<open>InitFromQuery(row)\<close>\<close>
  is_LocalFile :: "'i \<Rightarrow> bool"             \<comment> \<open>\<open>item->source() == Song::Source_LocalFile\<close>\<close>
  Metadata :: "'i \<Rightarrow> 's"
  Reload :: "'i \<Rightarrow> 'i"
  SongPlaylistItem :: "'s \<Rightarrow> 'i"          \<comment> \<open>\<open>std::make_shared<SongPlaylistItem>(song)\<close>\<close>
  has_cue :: "'s \<Rightarrow> bool"
  cue_path :: "'s \<Rightarrow> string"
  url_encoded :: "'s \<Rightarrow> string"           \<comment> \<open>\<open>song.url().toEncoded()\<close>\<close>
  beginning_nanosec :: "'s \<Rightarrow> int"
  file_exists :: "string \<Rightarrow> bool"          \<comment> \<open>\<open>QFile::exists(path)\<close>\<close>
  file_open :: "string \<Rightarrow> bool"            \<comment> \<open>\<open>cue_file.open(QIODevice::ReadOnly)\<close>\<close>
  cue_Load :: "string \<Rightarrow> 's list"          \<comment> \<open>\<open>cue_parser.Load(&cue_file, cue_path, dir)\<close>\<close>







subsection \<open>Saving and removing a playlist\<close>

text \<open>
  The loop of \<open>SavePlaylist\<close> over the items; \<open>n\<close> is the number of statements the call
  has executed so far. \<open>Inl\<close> is the early return on a failed INSERT.
\<close>

fun insert_items ::
  "(nat \<Rightarrow> bool) \<Rightarrow> nat \<Rightarrow> ('i, 's, 'c) item_api \<Rightarrow> int \<Rightarrow> 'i list \<Rightarrow> 'c database \<Rightarrow>
   'c database + 'c database" where
  "insert_items ok n api playlist [] db = Inr db"
| "insert_items ok n api playlist (item # items) db =
     (case Exec (ok n) (sql_insert_item playlist (BindToQuery api item)) db of
        None \<Rightarrow> Inl db
      | Some db' \<Rightarrow> insert_items ok (Suc n) api playlist items db')"

text \<open>
  \<open>dynamic\<close> is the \<open>PlaylistGeneratorPtr\<close>: \<open>None\<close> for a null pointer, otherwise the
  three values read from the generator (\<open>type()\<close>, \<open>Save()\<close>, the songs table of its
  collection).
\<close>

definition SavePlaylist_body ::
  "(nat \<Rightarrow> bool) \<Rightarrow> ('i, 's, 'c) item_api \<Rightarrow> int \<Rightarrow> 'i list \<Rightarrow> int \<Rightarrow>
   (int \<times> string \<times> string) option \<Rightarrow> 'c database \<Rightarrow> 'c database scope_exit" where
  "SavePlaylist_body ok api playlist items lp dynamic db =
     (case Exec (ok 0) (sql_delete_items playlist) db of
        None \<Rightarrow> Return_early db
      | Some db1 \<Rightarrow>
          (case insert_items ok 1 api playlist items db1 of
             Inl db2 \<Rightarrow> Return_early db2
           | Inr db2 \<Rightarrow>
               (let (dtype, ddata, dbackend) =
                      (case dynamic of Some d \<Rightarrow> d | None \<Rightarrow> (0, [], []))
                in case Exec (ok (Suc (length items)))
                          (sql_update_playlist playlist lp dtype ddata dbackend) db2 of
                     None \<Rightarrow> Return_early db2
                   | Some db3 \<Rightarrow> Commit db3)))"

definition SavePlaylist ::
  "(nat \<Rightarrow> bool) \<Rightarrow> ('i, 's, 'c) item_api \<Rightarrow> int \<Rightarrow> 'i list \<Rightarrow> int \<Rightarrow>
   (int \<times> string \<times> string) option \<Rightarrow> 'c database \<Rightarrow> 'c database" where
  "SavePlaylist ok api playlist items lp dynamic db =
     ScopedTransaction (SavePlaylist_body ok api playlist items lp dynamic) db"

definition RemovePlaylist_body :: "(nat \<Rightarrow> bool) \<Rightarrow> int \<Rightarrow> 'c database \<Rightarrow> 'c database scope_exit" where
  "RemovePlaylist_body ok playlist_id db =
     (case Exec (ok 0) (sql_delete_playlist playlist_id) db of
        None \<Rightarrow> Return_early db
      | Some db1 \<Rightarrow>
          (case Exec (ok 1) (sql_delete_items playlist_id) db1 of
             None \<Rightarrow> Return_early db1
           | Some db2 \<Rightarrow> Commit db2))"

definition RemovePlaylist :: "(nat \<Rightarrow> bool) \<Rightarrow> int \<Rightarrow> 'c database \<Rightarrow> 'c database" where
  "RemovePlaylist ok playlist_id db = ScopedTransaction (RemovePlaylist_body ok playlist_id) db"


subsection \<open>An instance of the item functions\<close>

text \<open>
  For evaluating the backend on concrete playlists: a song is a record of the four
  properties \<open>RestoreCueData\<close> reads, an item is a song and whether its source is a local
  file, and a row stores the item as it is. One CUE sheet exists, /music/album.cue, with
  one song in it.
\<close>

record simple_song =
  s_url :: string
  s_beginning :: int
  s_cue :: string
  s_title :: string

record simple_item =
  i_local :: bool
  i_song :: simple_song

definition simple_api :: "(simple_item, simple_song, simple_item) item_api" where
  "simple_api =
     \<lparr> BindToQuery = (\<lambda>i. i),
       NewFromRow = Some,
       is_LocalFile = i_local,
       Metadata = i_song,
       Reload = (\<lambda>i. i),
       SongPlaylistItem = (\<lambda>s. \<lparr>i_local = True, i_song = s\<rparr>),
       has_cue = (\<lambda>s. s_cue s \<noteq> []),
       cue_path = s_cue,
       url_encoded = s_url,
       beginning_nanosec = s_beginning,
       file_exists = (\<lambda>p. p = ''/music/album.cue''),
       file_open = (\<lambda>p. p = ''/music/album.cue''),
       cue_Load = (\<lambda>p. [\<lparr>s_url = ''file:///music/album.flac'', s_beginning = 0,
                            s_cue = ''/music/album.cue'', s_title = ''Title in the CUE sheet''\<rparr>]) \<rparr>"

definition cue_item :: simple_item where
  "cue_item = \<lparr>i_local = True,
     i_song = \<lparr>s_url = ''file:///music/album.flac'', s_beginning = 0,
               s_cue = ''/music/album.cue'', s_title = ''Title when saved''\<rparr>\<rparr>"

definition stream_item :: simple_item where
  "stream_item = \<lparr>i_local = False,
     i_song = \<lparr>s_url = ''https://example.org/stream'', s_beginning = 0,
               s_cue = [], s_title = ''Radio''\<rparr>\<rparr>"

definition db0 :: "simple_item database" where
  "db0 = \<lparr> playlists =
             [\<lparr>ROWID = 1, name = ''One'', last_played = 0, special_type = [], ui_path = [],
               ui_order = 0, is_favorite = False, dynamic_playlist_type = 0,
               dynamic_playlist_data = [], dynamic_playlist_backend = []\<rparr>,
              \<lparr>ROWID = 2, name = ''Two'', last_played = 3, special_type = [], ui_path = [],
               ui_order = 1, is_favorite = True, dynamic_playlist_type = 0,
               dynamic_playlist_data = [], dynamic_playlist_backend = []\<rparr>],
           playlist_items =
             [\<lparr>item_playlist = 1, item_cols = stream_item\<rparr>,
              \<lparr>item_playlist = 2, item_cols = stream_item\<rparr>,
              \<lparr>item_playlist = 1, item_cols = cue_item\<rparr>] \<rparr>"


section \<open>The Qobuz stream URL request (src/unnamed/part_000)\<close>

text \<open>
  \<open>Song::FileType\<close> is declared in core/song.h, which is not among the sources; the two
  values the request names are constructors, every other value is \<open>FileType_Other\<close>.
\<close>

datatype FileType = FileType_Unknown | FileType_Stream | FileType_Other nat

text \<open>
  The base class \<open>QobuzBaseRequest\<close> and the Qt classes \<open>QNetworkReply\<close>, \<open>QJsonValue\<close>,
  \<open>QUrl\<close> and \<open>QMimeDatabase\<close> are not among the sources. A reply is a value of a type
  \<open>'r\<close>, a JSON value of a type \<open>'j\<close>, a JSON object is the list of its members, and the
  functions the request calls are the fields of a record. \<open>GetReplyData\<close> and
  \<open>ExtractJsonObj\<close> report their errors through the virtual \<open>Error\<close>, which this class
  overrides: they return their result together with the messages they pass to it.
\<close>

type_synonym 'j QJsonObject = "(string \<times> 'j) list"

record ('r, 'j, 'q) qobuz_api =
  GetReplyData :: "'r \<Rightarrow> string \<times> string list"
  ExtractJsonObj :: "string \<Rightarrow> 'j QJsonObject \<times> string list"
  authenticated :: bool
  login_sent :: bool
  json_null :: 'j                           \<comment> \<open>what \<open>json_obj[key]\<close> is when the key is absent\<close>
  toInt :: "'j \<Rightarrow> int"
  toDouble :: "'j \<Rightarrow> 'q"
  toString :: "'j \<Rightarrow> string"
  url_isValid :: "string \<Rightarrow> bool"            \<comment> \<open>\<open>QUrl(s).isValid()\<close>\<close>
  mime_suffixes :: "string \<Rightarrow> string list"    \<comment> \<open>\<open>mimedb.mimeTypeForName(m).suffixes()\<close>\<close>
  FiletypeByExtension :: "string \<Rightarrow> FileType"

definition json_contains :: "'j QJsonObject \<Rightarrow> string \<Rightarrow> bool" where
  "json_contains obj key = (key \<in> fst ` set obj)"

definition json_value :: "('r, 'j, 'q) qobuz_api \<Rightarrow> 'j QJsonObject \<Rightarrow> string \<Rightarrow> 'j" where
  "json_value api obj key = (case map_of obj key of Some v \<Rightarrow> v | None \<Rightarrow> json_null api)"

text \<open>
  The members of the request; \<open>request_id\<close> is \<open>id_\<close>, and \<open>reply\<close> is \<open>None\<close> when the
  pointer \<open>reply_\<close> is null.
\<close>

record 'r QobuzStreamURLRequest =
  reply :: "'r option"
  request_id :: int
  original_url :: string
  song_id :: int
  tries :: int
  need_login :: bool
  errors :: "string list"

text \<open>
  The arguments of the signal \<open>StreamURLFinished\<close>. The last one, the error, has a default
  value in the header (which is not among the sources): the call with seven arguments
  passes the empty string.
\<close>

record StreamURLFinished =
  sig_id :: int
  sig_original_url :: string
  sig_stream_url :: string
  sig_filetype :: FileType
  sig_samplerate :: int
  sig_bit_depth :: int
  sig_duration :: int
  sig_error :: string

text \<open>
  What a call of \<open>StreamURLReceived\<close> does besides changing the request: it emits nothing,
  emits the signal, or evaluates \<open>errors_.first()\<close> on an empty list, which Qt does not
  define (it is an assertion failure in a debug build).
\<close>

datatype outcome = Nothing | Emit StreamURLFinished | First_of_empty_list

definition Error :: "string \<Rightarrow> 'r QobuzStreamURLRequest \<Rightarrow> 'r QobuzStreamURLRequest" where
  "Error error st = (if error \<noteq> [] then st\<lparr>errors := errors st @ [error]\<rparr> else st)"

definition report_errors ::
  "string list \<Rightarrow> 'r QobuzStreamURLRequest \<Rightarrow> 'r QobuzStreamURLRequest" where
  "report_errors es st = fold Error es st"

text \<open>
  \<open>emit StreamURLFinished(id_, original_url_, original_url_, filetype, -1, -1, -1,
  errors_.first())\<close>.
\<close>

definition emit_error ::
  "FileType \<Rightarrow> 'r QobuzStreamURLRequest \<Rightarrow> 'r QobuzStreamURLRequest \<times> outcome" where
  "emit_error filetype st =
     (st, case errors st of
            [] \<Rightarrow> First_of_empty_list
          | e # es \<Rightarrow>
              Emit \<lparr> sig_id = request_id st, sig_original_url = original_url st,
                     sig_stream_url = original_url st, sig_filetype = filetype,
                     sig_samplerate = - 1, sig_bit_depth = - 1, sig_duration = - 1,
                     sig_error = e \<rparr>)"

text \<open>The loop over the suffixes of the MIME type; \<open>filetype\<close> is the variable it assigns.\<close>

fun filetype_of_suffixes ::
  "('r, 'j, 'q) qobuz_api \<Rightarrow> string list \<Rightarrow> FileType \<Rightarrow> FileType" where
  "filetype_of_suffixes api [] filetype = filetype"
| "filetype_of_suffixes api (suffix # suffixes) filetype =
     (let filetype' = FiletypeByExtension api suffix
      in if filetype' \<noteq> FileType_Unknown then filetype'
         else filetype_of_suffixes api suffixes filetype')"

text \<open>
  \<open>kNsecPerSec\<close> is defined in core/timeconstants.h, which is not among the sources; it is
  a parameter.
\<close>

definition StreamURLReceived ::
  "('r, 'j, 'q) qobuz_api \<Rightarrow> 'q fp_ops \<Rightarrow> int \<Rightarrow> 'r QobuzStreamURLRequest \<Rightarrow>
   'r QobuzStreamURLRequest \<times> outcome" where
  "StreamURLReceived api ops kNsecPerSec st =
     (case reply st of
        None \<Rightarrow> (st, Nothing)
      | Some r \<Rightarrow>
          let (data, errs1) = GetReplyData api r;
              st1 = (report_errors errs1 st)\<lparr>reply := None\<rparr>
          in
          if data = [] then
            (if \<not> authenticated api \<and> login_sent api \<and> tries st1 \<le> 1
             then (st1\<lparr>need_login := True\<rparr>, Nothing)
             else emit_error FileType_Stream st1)
          else
            let (json_obj, errs2) = ExtractJsonObj api data;
                st2 = report_errors errs2 st1
            in
            if json_obj = [] then emit_error FileType_Stream st2
            else if \<not> json_contains json_obj ''track_id'' then
              emit_error FileType_Stream
                (Error ''Invalid Json reply, stream url is missing track_id.'' st2)
            else
              let track_id = toInt api (json_value api json_obj ''track_id'') in
              if track_id \<noteq> song_id st2 then
                emit_error FileType_Stream (Error ''Incorrect track ID returned.'' st2)
              else if \<not> json_contains json_obj ''mime_type'' \<or> \<not> json_contains json_obj ''url'' then
                emit_error FileType_Stream
                  (Error ''Invalid Json reply, stream url is missing url or mime_type.'' st2)
              else
                let url = toString api (json_value api json_obj ''url'');
                    mimetype = toString api (json_value api json_obj ''mime_type'');
                    filetype0 = filetype_of_suffixes api (mime_suffixes api mimetype)
                                  FileType_Unknown;
                    filetype = (if filetype0 = FileType_Unknown then FileType_Stream
                                else filetype0)
                in
                if \<not> url_isValid api url then
                  emit_error filetype (Error ''Returned stream url is invalid.'' st2)
                else
                  let duration =
                        (if json_contains json_obj ''duration''
                         then toInt api (json_value api json_obj ''duration'') * kNsecPerSec
                         else - 1);
                      samplerate =
                        (if json_contains json_obj ''sampling_rate''
                         then to_int32
                                (fp_to_int ops
                                   (toDouble api (json_value api json_obj ''sampling_rate''))
                                 * 1000)
                         else - 1);
                      bit_depth =
                        (if json_contains json_obj ''bit_depth''
                         then fp_to_int ops (toDouble api (json_value api json_obj ''bit_depth''))
                         else - 1)
                  in (st2,
                      Emit \<lparr> sig_id = request_id st2, sig_original_url = original_url st2,
                             sig_stream_url = url, sig_filetype = filetype,
                             sig_samplerate = samplerate, sig_bit_depth = bit_depth,
                             sig_duration = duration, sig_error = [] \<rparr>))"

text \<open>
  An instance for evaluating the request: the reply is its body and the error it carries,
  a JSON value is a number or a string, and a URL is valid when it is not empty.
\<close>

datatype json = JNumber int | JString string | JNull

record simple_reply =
  body :: string
  network_errors :: "string list"
  parsed :: "json QJsonObject"

definition qobuz_api0 :: "simple_reply \<Rightarrow> bool \<Rightarrow> (simple_reply, json, rat) qobuz_api" where
  "qobuz_api0 r auth =
     \<lparr> GetReplyData = (\<lambda>r. (body r, network_errors r)),
       ExtractJsonObj = (\<lambda>d. (parsed r, if parsed r = [] then [''Json document is empty''] else [])),
       authenticated = auth,
       login_sent = True,
       json_null = JNull,
       toInt = (\<lambda>j. case j of JNumber n \<Rightarrow> n | _ \<Rightarrow> 0),
       toDouble = (\<lambda>j. case j of JNumber n \<Rightarrow> of_int n | _ \<Rightarrow> 0),
       toString = (\<lambda>j. case j of JString s \<Rightarrow> s | _ \<Rightarrow> []),
       url_isValid = (\<lambda>u. u \<noteq> []),
       mime_suffixes = (\<lambda>m. if m = ''audio/flac'' then [''flac''] else []),
       FiletypeByExtension = (\<lambda>s. if s = ''flac'' then FileType_Other 1 else FileType_Unknown) \<rparr>"

definition empty_reply :: simple_reply where
  "empty_reply = \<lparr>body = [], network_errors = [''Host not found (3)''], parsed = []\<rparr>"

definition good_reply :: simple_reply where
  "good_reply =
     \<lparr>body = ''{...}'', network_errors = [],
      parsed = [(''track_id'', JNumber 42), (''mime_type'', JString ''audio/flac''),
                (''url'', JString ''https://streaming.example/42.flac''),
                (''duration'', JNumber 180)]\<rparr>"

definition request0 :: "simple_reply \<Rightarrow> simple_reply QobuzStreamURLRequest" where
  "request0 r = \<lparr> reply = Some r, request_id = 9, original_url = ''qobuz:42'', song_id = 42,
                  tries = 1, need_login = False, errors = [] \<rparr>"


text \<open>The request after \<open>GetReplyData\<close> has run and \<open>reply_\<close> has been reset.\<close>

definition after_reply ::
  "string list \<Rightarrow> 'r QobuzStreamURLRequest \<Rightarrow> 'r QobuzStreamURLRequest" where
  "after_reply errs1 st = (report_errors errs1 st)\<lparr>reply := None\<rparr>"

definition wrong_track_reply :: simple_reply where
  "wrong_track_reply =
     \<lparr>body = ''{...}'', network_errors = [],
      parsed = [(''track_id'', JNumber 41), (''mime_type'', JString ''audio/flac''),
                (''url'', JString ''https://streaming.example/41.flac'')]\<rparr>"


section \<open>Log levels (ext/libstrawberry-common/core/logging.cpp)\<close>

text \<open>
  \<open>QString::split(sep)\<close> with the default behaviour, which keeps empty parts: the result
  is never empty, and splitting the empty string gives one empty string.
\<close>

fun split :: "char \<Rightarrow> string \<Rightarrow> string list" where
  "split sep [] = [[]]"
| "split sep (c # cs) =
     (if c = sep then [] # split sep cs
      else case split sep cs of
             w # ws \<Rightarrow> (c # w) # ws
           | [] \<Rightarrow> [[c]])"

text \<open>
  The two static variables of the namespace: \<open>sClassLevels\<close> is \<open>None\<close> while the pointer
  is null, that is until \<open>Init()\<close> has run. A \<open>Level\<close> is its integer value.
\<close>

record logging_state =
  sDefaultLevel :: int
  sClassLevels :: "(string \<rightharpoonup> int) option"

text \<open>
  The body of the loop of \<open>SetLevels\<close>, for one item. \<open>QString_toInt\<close> is \<open>QString::toInt(&ok)\<close>,
  a parameter: \<open>None\<close> when \<open>ok\<close> is set to false. The enum \<open>Level\<close> is declared in
  logging.h, which is not among the sources: the values of \<open>Level_Error\<close> and
  \<open>Level_Debug\<close> are parameters.
\<close>

definition SetLevels_item ::
  "(string \<Rightarrow> int option) \<Rightarrow> int \<Rightarrow> int \<Rightarrow> string \<Rightarrow> logging_state \<Rightarrow> logging_state" where
  "SetLevels_item QString_toInt Level_Error Level_Debug item st =
     (let class_level = split CHR '':'' item;
          (class_name, level) =
            (if length class_level = 1 then ([], QString_toInt (last class_level))
             else if length class_level = 2 then (hd class_level, QString_toInt (last class_level))
             else ([], None))
      in case level of
           None \<Rightarrow> st
         | Some level \<Rightarrow>
             if level < Level_Error \<or> level > Level_Debug then st
             else if class_name = [] \<or> class_name = ''*'' then st\<lparr>sDefaultLevel := level\<rparr>
             else st\<lparr>sClassLevels :=
                       map_option (\<lambda>m. m(class_name \<mapsto> level)) (sClassLevels st)\<rparr>)"

definition SetLevels ::
  "(string \<Rightarrow> int option) \<Rightarrow> int \<Rightarrow> int \<Rightarrow> string \<Rightarrow> logging_state \<Rightarrow> logging_state" where
  "SetLevels QString_toInt Level_Error Level_Debug levels st =
     (case sClassLevels st of
        None \<Rightarrow> st
      | Some m \<Rightarrow>
          fold (SetLevels_item QString_toInt Level_Error Level_Debug) (split CHR '','' levels) st)"

text \<open>A reading of decimal numbers, for evaluating \<open>SetLevels\<close>: digits after an optional minus sign.\<close>

fun digits_value :: "string \<Rightarrow> nat \<Rightarrow> nat option" where
  "digits_value [] acc = Some acc"
| "digits_value (c # cs) acc =
     (let d = (of_char c :: nat)
      in if 48 \<le> d \<and> d \<le> 57 then digits_value cs (10 * acc + (d - 48)) else None)"

definition toInt_decimal :: "string \<Rightarrow> int option" where
  "toInt_decimal s =
     (case s of
        [] \<Rightarrow> None
      | c # cs \<Rightarrow>
          if c = CHR ''-'' then (if cs = [] then None
                               else map_option (\<lambda>n. - int n) (digits_value cs 0))
          else map_option int (digits_value s 0))"

definition logging0 :: logging_state where
  "logging0 = \<lparr>sDefaultLevel = 3, sClassLevels = Some Map.empty\<rparr>"


text \<open>
  The words of the claim about an item: it conforms, with level \<open>n\<close>, when it has one or
  two fields separated by colons, the last field reads as the integer \<open>n\<close>, and \<open>n\<close> lies
  between \<open>Level_Error\<close> and \<open>Level_Debug\<close>; its class name is the first of two fields, and
  empty when there is one field.
\<close>

definition conforming :: "(string \<Rightarrow> int option) \<Rightarrow> int \<Rightarrow> int \<Rightarrow> string \<Rightarrow> int \<Rightarrow> bool" where
  "conforming QString_toInt Level_Error Level_Debug item n =
     (let fields = split CHR '':'' item
      in (length fields = 1 \<or> length fields = 2) \<and> QString_toInt (last fields) = Some n \<and>
         Level_Error \<le> n \<and> n \<le> Level_Debug)"

definition class_name_of :: "string \<Rightarrow> string" where
  "class_name_of item =
     (let fields = split CHR '':'' item in if length fields = 2 then hd fields else [])"


section \<open>The stretch header view (src/widgets/stretchheaderview.cpp)\<close>

subsection \<open>The header view of Qt\<close>

text \<open>
  \<open>StretchHeaderView\<close> derives from \<open>QHeaderView\<close>. Of the base class the model keeps what
  the functions below read and write: for each logical index whether the section is
  hidden and the size it has when shown, the order in which the sections are displayed,
  the sort indicator, and the width of the widget. The members of the derived class are
  \<open>stretch_enabled\<close> and \<open>column_widths\<close>; \<open>emitted\<close> collects the arguments of the signal
  \<open>StretchEnabledChanged\<close>. The slot \<open>SectionResized\<close>, which Qt calls when a section
  changes its size, returns at once unless a mouse move is in progress: the model is of
  calls made outside \<open>mouseMoveEvent\<close>.
\<close>

record header_section =
  section_hidden :: bool
  section_size :: int

record 'q header_view =
  sections :: "header_section list"
  visual_order :: "nat list"            \<comment> \<open>the logical index at each visual position\<close>
  sort_indicator :: "int \<times> int"          \<comment> \<open>section and order\<close>
  view_width :: int                     \<comment> \<open>\<open>width()\<close>\<close>
  stretch_enabled :: bool
  column_widths :: "'q list"
  emitted :: "bool list"

definition count :: "'q header_view \<Rightarrow> nat" where
  "count h = length (sections h)"

definition valid_index :: "'q header_view \<Rightarrow> int \<Rightarrow> bool" where
  "valid_index h logical = (0 \<le> logical \<and> logical < int (count h))"

definition isSectionHidden :: "'q header_view \<Rightarrow> int \<Rightarrow> bool" where
  "isSectionHidden h logical =
     (valid_index h logical \<and> section_hidden (sections h ! nat logical))"

definition sectionSize :: "'q header_view \<Rightarrow> int \<Rightarrow> int" where
  \<comment> \<open>0 for a hidden section and for an index that is out of range\<close>
  "sectionSize h logical =
     (if valid_index h logical \<and> \<not> section_hidden (sections h ! nat logical)
      then section_size (sections h ! nat logical) else 0)"

definition setSectionHidden :: "int \<Rightarrow> bool \<Rightarrow> 'q header_view \<Rightarrow> 'q header_view" where
  \<comment> \<open>does nothing for an index that is out of range\<close>
  "setSectionHidden logical hide h =
     (if valid_index h logical
      then h\<lparr>sections := (sections h)[nat logical :=
                 (sections h ! nat logical)\<lparr>section_hidden := hide\<rparr>]\<rparr>
      else h)"

definition hideSection :: "int \<Rightarrow> 'q header_view \<Rightarrow> 'q header_view" where
  "hideSection logical h = setSectionHidden logical True h"

definition showSection :: "int \<Rightarrow> 'q header_view \<Rightarrow> 'q header_view" where
  "showSection logical h = setSectionHidden logical False h"

definition resizeSection :: "int \<Rightarrow> int \<Rightarrow> 'q header_view \<Rightarrow> 'q header_view" where
  \<comment> \<open>does nothing for an index that is out of range or a negative size\<close>
  "resizeSection logical px h =
     (if valid_index h logical \<and> 0 \<le> px
      then h\<lparr>sections := (sections h)[nat logical :=
                 (sections h ! nat logical)\<lparr>section_size := px\<rparr>]\<rparr>
      else h)"

fun index_of :: "nat list \<Rightarrow> nat \<Rightarrow> int" where
  "index_of [] x = - 1"
| "index_of (y # ys) x = (if y = x then 0 else let k = index_of ys x in if k < 0 then k else k + 1)"

definition visualIndex :: "'q header_view \<Rightarrow> int \<Rightarrow> int" where
  \<comment> \<open>-1 for an index that is out of range\<close>
  "visualIndex h logical =
     (if valid_index h logical then index_of (visual_order h) (nat logical) else - 1)"

definition moveSection :: "int \<Rightarrow> int \<Rightarrow> 'q header_view \<Rightarrow> 'q header_view" where
  \<comment> \<open>moves the section at visual index \<open>from\<close> to visual index \<open>to\<close>; does nothing when
      one of them is out of range\<close>
  "moveSection from to h =
     (let n = int (length (visual_order h))
      in if from < 0 \<or> n \<le> from \<or> to < 0 \<or> n \<le> to then h
         else
           let x = visual_order h ! nat from;
               rest = take (nat from) (visual_order h) @ drop (Suc (nat from)) (visual_order h)
           in h\<lparr>visual_order := take (nat to) rest @ [x] @ drop (nat to) rest\<rparr>)"

definition setSortIndicator :: "int \<Rightarrow> int \<Rightarrow> 'q header_view \<Rightarrow> 'q header_view" where
  "setSortIndicator logical order h = h\<lparr>sort_indicator := (logical, order)\<rparr>"

subsection \<open>Stretching\<close>

definition kMinimumColumnWidth :: int where
  "kMinimumColumnWidth = 10"

definition kMagicNumber :: int where
  "kMagicNumber = 0x502c950f"

text \<open>
  \<open>NormaliseWidths\<close> and \<open>UpdateWidths\<close> take the list of sections they work on; called
  without an argument, as in \<open>HideSection\<close>, they get the empty list. The first loop of
  \<open>NormaliseWidths\<close>, over \<open>i < count()\<close>, is \<open>None\<close> when it reads \<open>column_widths_[i]\<close>
  beyond the end of the list, which Qt does not define.
\<close>

fun selected_sum_loop :: "'q fp_ops \<Rightarrow> 'q list \<Rightarrow> int list \<Rightarrow> nat list \<Rightarrow> 'q \<Rightarrow> 'q option" where
  "selected_sum_loop ops widths secs [] selected_sum = Some selected_sum"
| "selected_sum_loop ops widths secs (i # is) selected_sum =
     (if int i \<in> set secs then
        (if i < length widths
         then selected_sum_loop ops widths secs is (fp_add ops selected_sum (widths ! i))
         else None)
      else selected_sum_loop ops widths secs is selected_sum)"

definition NormaliseWidths :: "'q fp_ops \<Rightarrow> int list \<Rightarrow> 'q header_view \<Rightarrow> 'q header_view option" where
  "NormaliseWidths ops secs h =
     (if \<not> stretch_enabled h then Some h
      else
        let total_sum = fold (\<lambda>w acc. fp_add ops acc w) (column_widths h) (fp_of_rat ops 0)
        in case (if secs \<noteq> []
                 then selected_sum_loop ops (column_widths h) secs [0..<count h] (fp_of_rat ops 0)
                 else Some total_sum) of
             None \<Rightarrow> None
           | Some selected_sum \<Rightarrow>
               if \<not> fp_eq ops total_sum (fp_of_rat ops 0) \<and>
                  \<not> fp_fuzzy ops total_sum (fp_of_rat ops 1)
               then
                 let mult = fp_div ops
                              (fp_add ops selected_sum (fp_sub ops (fp_of_rat ops 1) total_sum))
                              selected_sum
                 in Some (h\<lparr>column_widths :=
                            map (\<lambda>(i, w). if secs = [] \<or> int i \<in> set secs
                                          then fp_mul ops w mult else w)
                                (enumerate 0 (column_widths h))\<rparr>)
               else Some h)"

text \<open>The loop of \<open>UpdateWidths\<close>, over \<open>i < column_widths_.count()\<close>.\<close>

fun UpdateWidths_loop :: "'q fp_ops \<Rightarrow> int list \<Rightarrow> nat list \<Rightarrow> 'q header_view \<Rightarrow> 'q header_view" where
  "UpdateWidths_loop ops secs [] h = h"
| "UpdateWidths_loop ops secs (i # is) h =
     (let w = column_widths h ! i;
          pixels = fp_to_int ops (fp_mul ops w (fp_of_rat ops (of_int (view_width h))))
      in if secs \<noteq> [] \<and> int i \<notin> set secs then UpdateWidths_loop ops secs is h
         else
           let h1 = (if pixels = 0 \<and> \<not> isSectionHidden h (int i) then hideSection (int i) h
                     else if pixels \<noteq> 0 \<and> isSectionHidden h (int i) then showSection (int i) h
                     else h);
               h2 = (if pixels \<noteq> 0 then resizeSection (int i) pixels h1 else h1)
           in UpdateWidths_loop ops secs is h2)"

definition UpdateWidths :: "'q fp_ops \<Rightarrow> int list \<Rightarrow> 'q header_view \<Rightarrow> 'q header_view" where
  "UpdateWidths ops secs h =
     (if \<not> stretch_enabled h then h
      else UpdateWidths_loop ops secs [0..<length (column_widths h)] h)"

text \<open>
  \<open>HideSection\<close>: \<open>None\<close> when \<open>column_widths_[logical] = 0.0\<close> writes outside the list,
  which Qt does not define.
\<close>

definition HideSection :: "'q fp_ops \<Rightarrow> int \<Rightarrow> 'q header_view \<Rightarrow> 'q header_view option" where
  "HideSection ops logical h =
     (let all_hidden =
            list_all (\<lambda>i. \<not> (int i \<noteq> logical \<and> \<not> isSectionHidden h (int i) \<and>
                              sectionSize h (int i) > 0))
                     [0..<count h]
      in if all_hidden then Some h
         else if \<not> stretch_enabled h then Some (hideSection logical h)
         else if logical < 0 \<or> int (length (column_widths h)) \<le> logical then None
         else
           case NormaliseWidths ops []
                  (h\<lparr>column_widths := (column_widths h)[nat logical := fp_of_rat ops 0]\<rparr>) of
             None \<Rightarrow> None
           | Some h1 \<Rightarrow> Some (UpdateWidths ops [] h1))"

text \<open>A sequence of \<open>HideSection\<close> calls.\<close>

fun HideSections :: "'q fp_ops \<Rightarrow> int list \<Rightarrow> 'q header_view \<Rightarrow> 'q header_view option" where
  "HideSections ops [] h = Some h"
| "HideSections ops (logical # ls) h =
     (case HideSection ops logical h of
        None \<Rightarrow> None
      | Some h1 \<Rightarrow> HideSections ops ls h1)"

text \<open>Some section is visible: it is in range and not hidden.\<close>

definition some_visible :: "'q header_view \<Rightarrow> bool" where
  "some_visible h = list_ex (\<lambda>i. \<not> isSectionHidden h (int i)) [0..<count h]"

subsection \<open>Saved state\<close>

text \<open>
  \<open>s >> magic_number\<close> on a \<open>QDataStream\<close>: four bytes, the most significant first. When
  fewer than four bytes are left the stream reads to its end and the integer is 0.
\<close>

definition read_int32 :: "8 word list \<Rightarrow> int \<times> 8 word list" where
  "read_int32 bs =
     (if length bs < 4 then (0, [])
      else (sint (word_rcat (take 4 bs) :: 32 word), drop 4 bs))"

text \<open>
  The six values that \<open>RestoreState\<close> reads after the magic number. How \<open>QDataStream\<close>
  reads them from the bytes is a parameter, \<open>read_fields\<close>.
\<close>

record 'q persisted =
  p_stretch_enabled :: bool
  p_pixel_widths :: "int list"
  p_visual_indices :: "int list"
  p_column_widths :: "'q list"
  p_sort_indicator_order :: int
  p_sort_indicator_section :: int

text \<open>
  The loop of \<open>RestoreState\<close> over \<open>i < count() && i < persisted_column_count\<close>, which
  sets the visibility, the position and, outside stretch mode, the size of each section.
\<close>

fun restore_sections :: "'q persisted \<Rightarrow> nat list \<Rightarrow> 'q header_view \<Rightarrow> 'q header_view" where
  "restore_sections p [] h = h"
| "restore_sections p (i # is) h =
     (let h1 = setSectionHidden (int i) (p_pixel_widths p ! i \<le> kMinimumColumnWidth) h;
          h2 = moveSection (visualIndex h1 (p_visual_indices p ! i)) (int i) h1;
          h3 = (if \<not> stretch_enabled h2 then resizeSection (int i) (p_pixel_widths p ! i) h2
                else h2)
      in restore_sections p is h3)"

definition RestoreState ::
  "'q fp_ops \<Rightarrow> (8 word list \<Rightarrow> 'q persisted) \<Rightarrow> 8 word list \<Rightarrow> 'q header_view \<Rightarrow>
   bool \<times> 'q header_view" where
  "RestoreState ops read_fields sdata h =
     (let (magic_number, rest) = read_int32 sdata
      in if magic_number \<noteq> kMagicNumber \<or> rest = [] then (False, h)
         else
           let p = read_fields rest;
               h1 = h\<lparr>stretch_enabled := p_stretch_enabled p,
                      column_widths := p_column_widths p\<rparr>;
               h2 = setSortIndicator (p_sort_indicator_section p) (p_sort_indicator_order p) h1;
               persisted_column_count =
                 min (min (length (p_visual_indices p)) (length (p_pixel_widths p)))
                     (length (column_widths h2));
               h3 = restore_sections p [0..<min (count h2) persisted_column_count] h2;
               h4 = h3\<lparr>column_widths :=
                         column_widths h3 @
                         replicate (count h3 - length (column_widths h3)) (fp_of_rat ops 0)\<rparr>;
               h5 = (if stretch_enabled h4 then UpdateWidths ops [] h4 else h4)
           in (True, h5\<lparr>emitted := emitted h5 @ [stretch_enabled h5]\<rparr>))"

text \<open>Header views for evaluating the functions: two sections of 50 pixels, shown.\<close>

definition header0 :: "rat header_view" where
  "header0 =
     \<lparr> sections = [\<lparr>section_hidden = False, section_size = 50\<rparr>,
                   \<lparr>section_hidden = False, section_size = 50\<rparr>],
       visual_order = [0, 1], sort_indicator = (0, 0), view_width = 100,
       stretch_enabled = False, column_widths = [1 / 2, 1 / 2], emitted = [] \<rparr>"


text \<open>The width in pixels that \<open>UpdateWidths\<close> computes for column \<open>i\<close>.\<close>

definition pixel_width :: "'q fp_ops \<Rightarrow> 'q header_view \<Rightarrow> nat \<Rightarrow> int" where
  "pixel_width ops h i =
     fp_to_int ops (fp_mul ops (column_widths h ! i) (fp_of_rat ops (of_int (view_width h))))"

text \<open>
  The header view \<open>header0\<close> in stretch mode, in a widget that is 0 pixels wide: both
  sections are shown, each with half of the width.
\<close>

definition narrow_header :: "rat header_view" where
  "narrow_header = header0\<lparr>stretch_enabled := True, view_width := 0\<rparr>"


section \<open>Theorems: buffering\<close>

text \<open>
  C3. A buffering message whose source is not the audioqueue element leaves the pipeline
  as it is. For a message from the audioqueue: at 0 percent, in state PLAYING and not yet
  buffering, the flag is set, BufferingStarted is emitted and PAUSED is requested; at 100
  percent while buffering, the flag is cleared, BufferingFinished is emitted and PLAYING
  is requested; at any other percent while buffering, BufferingProgress(percent) is
  emitted and nothing else changes.
\<close>

theorem BufferingMessageReceived_transitions:
  "(msg_src msg \<noteq> audioqueue p \<longrightarrow> BufferingMessageReceived msg p = p) \<and>
   (msg_src msg = audioqueue p \<and> msg_percent msg = 0 \<and> state p = GST_STATE_PLAYING \<and>
    \<not> buffering p \<longrightarrow>
      BufferingMessageReceived msg p =
        p\<lparr>buffering := True,
          actions := actions p @ [Emit_BufferingStarted, Call_SetState GST_STATE_PAUSED]\<rparr>) \<and>
   (msg_src msg = audioqueue p \<and> msg_percent msg = 100 \<and> buffering p \<longrightarrow>
      BufferingMessageReceived msg p =
        p\<lparr>buffering := False,
          actions := actions p @ [Emit_BufferingFinished, Call_SetState GST_STATE_PLAYING]\<rparr>) \<and>
   (msg_src msg = audioqueue p \<and> msg_percent msg \<noteq> 0 \<and> msg_percent msg \<noteq> 100 \<and>
    buffering p \<longrightarrow>
      BufferingMessageReceived msg p =
        p\<lparr>actions := actions p @ [Emit_BufferingProgress (msg_percent msg)]\<rparr>)"
  by (simp add: BufferingMessageReceived_def SetState_def do_action_def Let_def)

theorem BufferingMessageReceived_transitions_witness:
  "BufferingMessageReceived \<lparr>msg_src = 3, msg_percent = 0\<rparr> pipeline0 = pipeline0 \<and>
   BufferingMessageReceived \<lparr>msg_src = 7, msg_percent = 0\<rparr> pipeline0 =
     pipeline0\<lparr>buffering := True,
       actions := [Emit_BufferingStarted, Call_SetState GST_STATE_PAUSED]\<rparr> \<and>
   BufferingMessageReceived \<lparr>msg_src = 7, msg_percent = 100\<rparr> (pipeline0\<lparr>buffering := True\<rparr>) =
     pipeline0\<lparr>buffering := False,
       actions := [Emit_BufferingFinished, Call_SetState GST_STATE_PLAYING]\<rparr> \<and>
   BufferingMessageReceived \<lparr>msg_src = 7, msg_percent = 42\<rparr> (pipeline0\<lparr>buffering := True\<rparr>) =
     pipeline0\<lparr>buffering := True, actions := [Emit_BufferingProgress 42]\<rparr>"
  using BufferingMessageReceived_transitions [of "\<lparr>msg_src = 3, msg_percent = 0\<rparr>" pipeline0]
        BufferingMessageReceived_transitions [of "\<lparr>msg_src = 7, msg_percent = 0\<rparr>" pipeline0]
        BufferingMessageReceived_transitions
          [of "\<lparr>msg_src = 7, msg_percent = 100\<rparr>" "pipeline0\<lparr>buffering := True\<rparr>"]
        BufferingMessageReceived_transitions
          [of "\<lparr>msg_src = 7, msg_percent = 42\<rparr>" "pipeline0\<lparr>buffering := True\<rparr>"]
  by (simp add: pipeline0_def state_def)


section \<open>Theorems: gapless sequencing\<close>

lemma AboutToFinishCallback_count:
  "uri_assignments (AboutToFinishCallback v p) =
     (if v p \<and> \<not> next_uri_set p then Suc (uri_assignments p) else uri_assignments p)"
  by (simp add: AboutToFinishCallback_def uri_assignments_def do_action_def Let_def)

lemma AboutToFinishCallback_flag:
  "next_uri_set (AboutToFinishCallback v p) = (v p \<or> next_uri_set p)"
  by (auto simp add: AboutToFinishCallback_def do_action_def Let_def)

lemma SetNextUrl_count:
  "uri_assignments (SetNextUrl s orig b e p) = uri_assignments p"
  by (simp add: SetNextUrl_def uri_assignments_def)

lemma SetNextUrl_flag:
  "next_uri_set (SetNextUrl s orig b e p) = next_uri_set p"
  by (simp add: SetNextUrl_def)

lemma gapless_step_flag: "next_uri_set p \<Longrightarrow> next_uri_set (gapless_step v x p)"
  by (cases x) (simp_all add: AboutToFinishCallback_flag SetNextUrl_flag)

lemma gapless_step_count_set:
  "next_uri_set p \<Longrightarrow> uri_assignments (gapless_step v x p) = uri_assignments p"
  by (cases x) (simp_all add: AboutToFinishCallback_count SetNextUrl_count)

lemma gapless_run_count_set:
  "next_uri_set p \<Longrightarrow> uri_assignments (gapless_run v xs p) = uri_assignments p"
proof (induction xs arbitrary: p)
  case Nil
  show ?case by simp
next
  case (Cons x xs)
  have "next_uri_set (gapless_step v x p)"
    using Cons.prems by (rule gapless_step_flag)
  then have "uri_assignments (gapless_run v xs (gapless_step v x p)) =
             uri_assignments (gapless_step v x p)"
    by (rule Cons.IH)
  then show ?case
    using Cons.prems by (simp add: gapless_step_count_set)
qed

lemma gapless_run_count_le:
  "\<not> next_uri_set p \<Longrightarrow> uri_assignments (gapless_run v xs p) \<le> Suc (uri_assignments p)"
proof (induction xs arbitrary: p)
  case Nil
  show ?case by simp
next
  case (Cons x xs)
  show ?case
  proof (cases "next_uri_set (gapless_step v x p)")
    case True
    then have "uri_assignments (gapless_run v xs (gapless_step v x p)) =
               uri_assignments (gapless_step v x p)"
      by (rule gapless_run_count_set)
    moreover have "uri_assignments (gapless_step v x p) \<le> Suc (uri_assignments p)"
      by (cases x) (simp_all add: AboutToFinishCallback_count SetNextUrl_count)
    ultimately show ?thesis by simp
  next
    case False
    then have "uri_assignments (gapless_step v x p) = uri_assignments p"
      by (cases x)
         (auto simp add: AboutToFinishCallback_count AboutToFinishCallback_flag
            SetNextUrl_count)
    moreover have "uri_assignments (gapless_run v xs (gapless_step v x p)) \<le>
                   Suc (uri_assignments (gapless_step v x p))"
      using False by (rule Cons.IH)
    ultimately show ?thesis by simp
  qed
qed

text \<open>
  C4. An about-to-finish callback assigns the playbin's uri exactly when there is a valid
  next URL and \<open>next_uri_set\<close> is false; it then assigns the stored next stream URL and
  leaves the flag set. Otherwise it changes nothing. Hence in every run of about-to-finish
  callbacks and \<open>SetNextUrl\<close> calls the uri is assigned at most once, and not at all when
  the flag is already set at the start.
\<close>

theorem AboutToFinishCallback_at_most_once:
  "(v p \<and> \<not> next_uri_set p \<longrightarrow>
      AboutToFinishCallback v p =
        p\<lparr>next_uri_set := True, actions := actions p @ [Set_uri (next_stream_url p)]\<rparr>) \<and>
   (\<not> (v p \<and> \<not> next_uri_set p) \<longrightarrow> AboutToFinishCallback v p = p) \<and>
   uri_assignments (gapless_run v ops p) \<le> Suc (uri_assignments p) \<and>
   (next_uri_set p \<longrightarrow> uri_assignments (gapless_run v ops p) = uri_assignments p)"
proof (intro conjI impI)
  assume "v p \<and> \<not> next_uri_set p"
  then show "AboutToFinishCallback v p =
        p\<lparr>next_uri_set := True, actions := actions p @ [Set_uri (next_stream_url p)]\<rparr>"
    by (simp add: AboutToFinishCallback_def do_action_def Let_def)
next
  assume "\<not> (v p \<and> \<not> next_uri_set p)"
  then show "AboutToFinishCallback v p = p"
    by (auto simp add: AboutToFinishCallback_def)
next
  show "uri_assignments (gapless_run v ops p) \<le> Suc (uri_assignments p)"
  proof (cases "next_uri_set p")
    case True
    then show ?thesis by (simp add: gapless_run_count_set)
  next
    case False
    then show ?thesis by (rule gapless_run_count_le)
  qed
next
  assume "next_uri_set p"
  then show "uri_assignments (gapless_run v ops p) = uri_assignments p"
    by (rule gapless_run_count_set)
qed

theorem AboutToFinishCallback_at_most_once_witness:
  "AboutToFinishCallback (\<lambda>p. next_stream_url p \<noteq> []) pipeline0 =
     pipeline0\<lparr>next_uri_set := True, actions := [Set_uri ''file:///b.flac'']\<rparr> \<and>
   AboutToFinishCallback (\<lambda>p. next_stream_url p \<noteq> []) (pipeline0\<lparr>next_uri_set := True\<rparr>) =
     pipeline0\<lparr>next_uri_set := True\<rparr> \<and>
   uri_assignments (gapless_run (\<lambda>p. next_stream_url p \<noteq> [])
     [AboutToFinish, NextUrl ''file:///c.flac'' ''file:///c.flac'' 0 0, AboutToFinish]
     (pipeline0\<lparr>next_uri_set := True\<rparr>)) = 0"
  using AboutToFinishCallback_at_most_once
          [of "\<lambda>p. next_stream_url p \<noteq> []" pipeline0 "[]"]
        AboutToFinishCallback_at_most_once
          [of "\<lambda>p. next_stream_url p \<noteq> []" "pipeline0\<lparr>next_uri_set := True\<rparr>"
              "[AboutToFinish, NextUrl ''file:///c.flac'' ''file:///c.flac'' 0 0, AboutToFinish]"]
  by (simp add: pipeline0_def uri_assignments_def AboutToFinishCallback_def SetNextUrl_def
        do_action_def)


section \<open>Theorems: fading\<close>











section \<open>Theorems: the playlist backend\<close>

lemma insert_items_Inr:
  "(\<forall>k < length items. ok (n + k)) \<Longrightarrow>
   insert_items ok n api playlist items db =
     Inr (db\<lparr>playlist_items := playlist_items db @
            map (\<lambda>it. \<lparr>item_playlist = playlist, item_cols = BindToQuery api it\<rparr>) items\<rparr>)"
proof (induction items arbitrary: n db)
  case Nil
  show ?case by simp
next
  case (Cons a items)
  have ok0: "ok n" using Cons.prems by force
  have rest: "\<forall>k < length items. ok (Suc n + k)"
  proof (intro allI impI)
    fix k assume "k < length items"
    then have "Suc k < length (a # items)" by simp
    then have "ok (n + Suc k)" using Cons.prems by blast
    then show "ok (Suc n + k)" by simp
  qed
  show ?case
    using ok0 Cons.IH[OF rest] by (simp add: Exec_def sql_insert_item_def)
qed

lemma insert_items_Inl:
  "\<exists>k < length items. \<not> ok (n + k) \<Longrightarrow> \<exists>db'. insert_items ok n api playlist items db = Inl db'"
proof (induction items arbitrary: n db)
  case Nil
  then show ?case by simp
next
  case (Cons a items)
  show ?case
  proof (cases "ok n")
    case False
    then show ?thesis by (simp add: Exec_def)
  next
    case True
    from Cons.prems obtain k where k: "k < length (a # items)" "\<not> ok (n + k)" by blast
    with True have "k \<noteq> 0" by (cases k) auto
    then obtain j where j: "k = Suc j" by (cases k) auto
    with k have "j < length items" "\<not> ok (Suc n + j)" by auto
    then have "\<exists>k < length items. \<not> ok (Suc n + k)" by blast
    from Cons.IH[OF this] show ?thesis using True by (simp add: Exec_def)
  qed
qed

lemma SavePlaylist_body_success_eq:
  assumes "\<forall>k < length items + 2. ok k"
  shows "SavePlaylist_body ok api playlist items lp dynamic db =
     Commit (sql_update_playlist playlist lp
        (case dynamic of Some (t, d, b) \<Rightarrow> t | None \<Rightarrow> 0)
        (case dynamic of Some (t, d, b) \<Rightarrow> d | None \<Rightarrow> [])
        (case dynamic of Some (t, d, b) \<Rightarrow> b | None \<Rightarrow> [])
        (db\<lparr>playlist_items := filter (\<lambda>r. item_playlist r \<noteq> playlist) (playlist_items db) @
            map (\<lambda>it. \<lparr>item_playlist = playlist, item_cols = BindToQuery api it\<rparr>) items\<rparr>))"
proof -
  have ok0: "ok 0" using assms by simp
  have okl: "ok (Suc (length items))" using assms by simp
  have "\<forall>k < length items. ok (Suc 0 + k)" using assms by simp
  then have ins: "\<And>d. insert_items ok (Suc 0) api playlist items d =
     Inr (d\<lparr>playlist_items := playlist_items d @
            map (\<lambda>it. \<lparr>item_playlist = playlist, item_cols = BindToQuery api it\<rparr>) items\<rparr>)"
    by (rule insert_items_Inr)
  show ?thesis using ok0 okl
    by (simp add: SavePlaylist_body_def Exec_def
        sql_delete_items_def ins split: option.splits prod.splits)
qed

lemma SavePlaylist_body_success:
  assumes "\<forall>k < length items + 2. ok k"
  shows "\<exists>db'. SavePlaylist_body ok api playlist items lp dynamic db = Commit db'"
  using SavePlaylist_body_success_eq[OF assms] by blast

lemma SavePlaylist_success:
  assumes "\<forall>k < length items + 2. ok k"
  shows "SavePlaylist ok api playlist items lp dynamic db =
     sql_update_playlist playlist lp
        (case dynamic of Some (t, d, b) \<Rightarrow> t | None \<Rightarrow> 0)
        (case dynamic of Some (t, d, b) \<Rightarrow> d | None \<Rightarrow> [])
        (case dynamic of Some (t, d, b) \<Rightarrow> b | None \<Rightarrow> [])
        (db\<lparr>playlist_items := filter (\<lambda>r. item_playlist r \<noteq> playlist) (playlist_items db) @
            map (\<lambda>it. \<lparr>item_playlist = playlist, item_cols = BindToQuery api it\<rparr>) items\<rparr>)"
  by (simp add: SavePlaylist_def ScopedTransaction_def SavePlaylist_body_success_eq[OF assms])

lemma SavePlaylist_body_failure:
  assumes "\<exists>k < length items + 2. \<not> ok k"
  shows "\<exists>d. SavePlaylist_body ok api playlist items lp dynamic db = Return_early d"
proof (cases "ok 0")
  case False
  then show ?thesis
    by (simp add: SavePlaylist_body_def Exec_def)
next
  case True
  show ?thesis
  proof (cases "\<exists>k < length items. \<not> ok (Suc 0 + k)")
    case True
    from insert_items_Inl[OF this] obtain db' where
      "insert_items ok (Suc 0) api playlist items (sql_delete_items playlist db) = Inl db'" by blast
    then show ?thesis using \<open>ok 0\<close>
      by (simp add: SavePlaylist_body_def Exec_def)
  next
    case False
    then have all: "\<forall>k < length items. ok (Suc 0 + k)" by blast
    from assms obtain k where k: "k < length items + 2" "\<not> ok k" by blast
    have "k = Suc (length items)"
    proof (rule ccontr)
      assume "k \<noteq> Suc (length items)"
      with k have "k \<le> length items" by simp
      show False
      proof (cases k)
        case 0 with k \<open>ok 0\<close> show False by simp
      next
        case (Suc j)
        with \<open>k \<le> length items\<close> have "j < length items" by simp
        with all have "ok (Suc 0 + j)" by blast
        with Suc k show False by simp
      qed
    qed
    with k have "\<not> ok (Suc (length items))" by simp
    then show ?thesis using \<open>ok 0\<close> insert_items_Inr[OF all, of api playlist "sql_delete_items playlist db"]
      by (simp add: SavePlaylist_body_def Exec_def split: prod.splits option.splits)
  qed
qed

lemma SavePlaylist_failure:
  assumes "\<exists>k < length items + 2. \<not> ok k"
  shows "SavePlaylist ok api playlist items lp dynamic db = db"
proof -
  from SavePlaylist_body_failure[OF assms] obtain d where
    "SavePlaylist_body ok api playlist items lp dynamic db = Return_early d" by blast
  then show ?thesis by (simp add: SavePlaylist_def ScopedTransaction_def)
qed









text \<open>
  C2. \<open>SavePlaylist\<close> runs the DELETE, one INSERT per item and the UPDATE under one
  \<open>ScopedTransaction\<close>, and reaches \<open>Commit()\<close> exactly when all of these
  \<open>length items + 2\<close> statements succeed. If any of them fails the database after the call
  is the database before it: items, \<open>last_played\<close> and the dynamic fields are as they
  were. If all succeed the rows of the playlist are replaced by the new items and the
  playlist's row is updated.
\<close>

theorem SavePlaylist_atomic:
  "((\<exists>db'. SavePlaylist_body ok api playlist items lp dynamic db = Commit db') \<longleftrightarrow>
      (\<forall>k < length items + 2. ok k)) \<and>
   ((\<exists>k < length items + 2. \<not> ok k) \<longrightarrow>
      SavePlaylist ok api playlist items lp dynamic db = db) \<and>
   ((\<forall>k < length items + 2. ok k) \<longrightarrow>
      SavePlaylist ok api playlist items lp dynamic db =
        sql_update_playlist playlist lp
          (case dynamic of Some (t, d, b) \<Rightarrow> t | None \<Rightarrow> 0)
          (case dynamic of Some (t, d, b) \<Rightarrow> d | None \<Rightarrow> [])
          (case dynamic of Some (t, d, b) \<Rightarrow> b | None \<Rightarrow> [])
          (db\<lparr>playlist_items :=
                filter (\<lambda>r. item_playlist r \<noteq> playlist) (playlist_items db) @
                map (\<lambda>it. \<lparr>item_playlist = playlist, item_cols = BindToQuery api it\<rparr>) items\<rparr>))"
proof (intro conjI impI)
  show "(\<exists>db'. SavePlaylist_body ok api playlist items lp dynamic db = Commit db') \<longleftrightarrow>
      (\<forall>k < length items + 2. ok k)"
  proof
    assume c: "\<exists>db'. SavePlaylist_body ok api playlist items lp dynamic db = Commit db'"
    show "\<forall>k < length items + 2. ok k"
    proof (rule ccontr)
      assume "\<not> (\<forall>k < length items + 2. ok k)"
      then have "\<exists>k < length items + 2. \<not> ok k" by blast
      then have "\<exists>d. SavePlaylist_body ok api playlist items lp dynamic db = Return_early d"
        by (rule SavePlaylist_body_failure)
      with c show False by auto
    qed
  next
    assume "\<forall>k < length items + 2. ok k"
    then show "\<exists>db'. SavePlaylist_body ok api playlist items lp dynamic db = Commit db'"
      by (rule SavePlaylist_body_success)
  qed
next
  assume "\<exists>k < length items + 2. \<not> ok k"
  then show "SavePlaylist ok api playlist items lp dynamic db = db"
    by (rule SavePlaylist_failure)
next
  assume "\<forall>k < length items + 2. ok k"
  then show "SavePlaylist ok api playlist items lp dynamic db =
        sql_update_playlist playlist lp
          (case dynamic of Some (t, d, b) \<Rightarrow> t | None \<Rightarrow> 0)
          (case dynamic of Some (t, d, b) \<Rightarrow> d | None \<Rightarrow> [])
          (case dynamic of Some (t, d, b) \<Rightarrow> b | None \<Rightarrow> [])
          (db\<lparr>playlist_items :=
                filter (\<lambda>r. item_playlist r \<noteq> playlist) (playlist_items db) @
                map (\<lambda>it. \<lparr>item_playlist = playlist, item_cols = BindToQuery api it\<rparr>) items\<rparr>)"
    by (rule SavePlaylist_success)
qed


theorem SavePlaylist_atomic_witness:
  "SavePlaylist (\<lambda>k. k \<noteq> 2) simple_api 1 [stream_item, cue_item] 5 None db0 = db0 \<and>
   playlist_items (SavePlaylist (\<lambda>k. True) simple_api 2 [cue_item] 5 None db0) =
     [\<lparr>item_playlist = 1, item_cols = stream_item\<rparr>,
      \<lparr>item_playlist = 1, item_cols = cue_item\<rparr>,
      \<lparr>item_playlist = 2, item_cols = cue_item\<rparr>] \<and>
   map last_played (playlists (SavePlaylist (\<lambda>k. True) simple_api 2 [cue_item] 5 None db0)) =
     [0, 5]"
proof -
  have f: "\<exists>k < length [stream_item, cue_item] + 2. \<not> (\<lambda>k. k \<noteq> 2) k" by simp
  have g: "\<forall>k < length [cue_item] + 2. (\<lambda>k. True) k" by simp
  have 1: "SavePlaylist (\<lambda>k. k \<noteq> 2) simple_api 1 [stream_item, cue_item] 5 None db0 = db0"
    using SavePlaylist_atomic [of "\<lambda>k. k \<noteq> 2" simple_api 1 "[stream_item, cue_item]" 5 None db0] f
    by blast
  have 2: "SavePlaylist (\<lambda>k. True) simple_api 2 [cue_item] 5 None db0 =
        sql_update_playlist 2 5 0 [] []
          (db0\<lparr>playlist_items :=
                filter (\<lambda>r. item_playlist r \<noteq> 2) (playlist_items db0) @
                map (\<lambda>it. \<lparr>item_playlist = 2, item_cols = BindToQuery simple_api it\<rparr>) [cue_item]\<rparr>)"
    using SavePlaylist_atomic [of "\<lambda>k. True" simple_api 2 "[cue_item]" 5 None db0] g
    by simp
  have 3: "playlist_items (SavePlaylist (\<lambda>k. True) simple_api 2 [cue_item] 5 None db0) =
     [\<lparr>item_playlist = 1, item_cols = stream_item\<rparr>,
      \<lparr>item_playlist = 1, item_cols = cue_item\<rparr>,
      \<lparr>item_playlist = 2, item_cols = cue_item\<rparr>]"
    unfolding 2 by (simp add: sql_update_playlist_def db0_def simple_api_def)
  have 4: "map last_played
             (playlists (SavePlaylist (\<lambda>k. True) simple_api 2 [cue_item] 5 None db0)) = [0, 5]"
    unfolding 2 by (simp add: sql_update_playlist_def db0_def)
  show ?thesis
    using 1 3 4 by blast
qed

text \<open>
  C7. \<open>RemovePlaylist\<close> removes the row of \<open>playlists\<close> whose ROWID is the given id and
  the rows of \<open>playlist_items\<close> whose playlist is that id, under one transaction: when
  both DELETE statements succeed exactly these rows are gone, and when one fails nothing is
  committed and the database is as before. In either case every other row of both tables
  is unchanged, and in its place.
\<close>

theorem RemovePlaylist_frame:
  "(ok 0 \<and> ok 1 \<longrightarrow>
      RemovePlaylist ok playlist_id db =
        db\<lparr>playlists := filter (\<lambda>r. ROWID r \<noteq> playlist_id) (playlists db),
           playlist_items := filter (\<lambda>r. item_playlist r \<noteq> playlist_id) (playlist_items db)\<rparr>) \<and>
   (\<not> (ok 0 \<and> ok 1) \<longrightarrow> RemovePlaylist ok playlist_id db = db) \<and>
   filter (\<lambda>r. ROWID r \<noteq> playlist_id) (playlists (RemovePlaylist ok playlist_id db)) =
     filter (\<lambda>r. ROWID r \<noteq> playlist_id) (playlists db) \<and>
   filter (\<lambda>r. item_playlist r \<noteq> playlist_id) (playlist_items (RemovePlaylist ok playlist_id db)) =
     filter (\<lambda>r. item_playlist r \<noteq> playlist_id) (playlist_items db)"
  by (simp add: RemovePlaylist_def RemovePlaylist_body_def ScopedTransaction_def Exec_def
      sql_delete_playlist_def sql_delete_items_def)

theorem RemovePlaylist_frame_witness:
  "RemovePlaylist (\<lambda>k. True) 1 db0 =
     \<lparr> playlists =
         [\<lparr>ROWID = 2, name = ''Two'', last_played = 3, special_type = [], ui_path = [],
           ui_order = 1, is_favorite = True, dynamic_playlist_type = 0,
           dynamic_playlist_data = [], dynamic_playlist_backend = []\<rparr>],
       playlist_items = [\<lparr>item_playlist = 2, item_cols = stream_item\<rparr>] \<rparr> \<and>
   RemovePlaylist (\<lambda>k. k = 0) 1 db0 = db0"
  using RemovePlaylist_frame [of "\<lambda>k. True" 1 db0]
        RemovePlaylist_frame [of "\<lambda>k. k = 0" 1 db0]
  by (simp add: db0_def)


section \<open>Theorems: the Qobuz stream URL request\<close>

lemma emit_error_nonempty:
  "errors st \<noteq> [] \<Longrightarrow>
   emit_error ft st =
     (st, Emit \<lparr> sig_id = request_id st, sig_original_url = original_url st,
                 sig_stream_url = original_url st, sig_filetype = ft,
                 sig_samplerate = - 1, sig_bit_depth = - 1, sig_duration = - 1,
                 sig_error = hd (errors st) \<rparr>)"
  by (cases "errors st") (simp_all add: emit_error_def)

lemma report_errors_fields:
  "request_id (report_errors es st) = request_id st \<and>
   original_url (report_errors es st) = original_url st \<and>
   song_id (report_errors es st) = song_id st \<and>
   tries (report_errors es st) = tries st \<and>
   need_login (report_errors es st) = need_login st"
  unfolding report_errors_def
  by (induction es arbitrary: st) (simp_all add: Error_def)

lemma Error_fields:
  "request_id (Error e st) = request_id st \<and>
   original_url (Error e st) = original_url st \<and>
   song_id (Error e st) = song_id st"
  by (simp add: Error_def)

lemma after_reply_fields:
  "request_id (after_reply es st) = request_id st \<and>
   original_url (after_reply es st) = original_url st \<and>
   song_id (after_reply es st) = song_id st \<and>
   tries (after_reply es st) = tries st"
  by (simp add: after_reply_def report_errors_fields)

lemma SUR_retry:
  assumes "reply st = Some r" "GetReplyData api r = (data, errs1)" "data = []"
    "\<not> authenticated api \<and> login_sent api \<and> tries st \<le> 1"
  shows "StreamURLReceived api ops k st = ((after_reply errs1 st)\<lparr>need_login := True\<rparr>, Nothing)"
  using assms by (simp add: StreamURLReceived_def after_reply_def report_errors_fields Let_def)

lemma SUR_no_data:
  assumes "reply st = Some r" "GetReplyData api r = (data, errs1)" "data = []"
    "\<not> (\<not> authenticated api \<and> login_sent api \<and> tries st \<le> 1)"
  shows "StreamURLReceived api ops k st = emit_error FileType_Stream (after_reply errs1 st)"
  using assms by (auto simp add: StreamURLReceived_def after_reply_def report_errors_fields Let_def)

lemma SUR_data:
  assumes "reply st = Some r" "GetReplyData api r = (data, errs1)" "data \<noteq> []"
    "ExtractJsonObj api data = (json_obj, errs2)"
  shows "StreamURLReceived api ops k st =
    (let st2 = report_errors errs2 (after_reply errs1 st) in
            if json_obj = [] then emit_error FileType_Stream st2
            else if \<not> json_contains json_obj ''track_id'' then
              emit_error FileType_Stream
                (Error ''Invalid Json reply, stream url is missing track_id.'' st2)
            else
              let track_id = toInt api (json_value api json_obj ''track_id'') in
              if track_id \<noteq> song_id st2 then
                emit_error FileType_Stream (Error ''Incorrect track ID returned.'' st2)
              else if \<not> json_contains json_obj ''mime_type'' \<or> \<not> json_contains json_obj ''url'' then
                emit_error FileType_Stream
                  (Error ''Invalid Json reply, stream url is missing url or mime_type.'' st2)
              else
                let url = toString api (json_value api json_obj ''url'');
                    mimetype = toString api (json_value api json_obj ''mime_type'');
                    filetype0 = filetype_of_suffixes api (mime_suffixes api mimetype)
                                  FileType_Unknown;
                    filetype = (if filetype0 = FileType_Unknown then FileType_Stream
                                else filetype0)
                in
                if \<not> url_isValid api url then
                  emit_error filetype (Error ''Returned stream url is invalid.'' st2)
                else
                  let duration =
                        (if json_contains json_obj ''duration''
                         then toInt api (json_value api json_obj ''duration'') * k
                         else - 1);
                      samplerate =
                        (if json_contains json_obj ''sampling_rate''
                         then to_int32
                                (fp_to_int ops
                                   (toDouble api (json_value api json_obj ''sampling_rate''))
                                 * 1000)
                         else - 1);
                      bit_depth =
                        (if json_contains json_obj ''bit_depth''
                         then fp_to_int ops (toDouble api (json_value api json_obj ''bit_depth''))
                         else - 1)
                  in (st2,
                      Emit \<lparr> sig_id = request_id st2, sig_original_url = original_url st2,
                             sig_stream_url = url, sig_filetype = filetype,
                             sig_samplerate = samplerate, sig_bit_depth = bit_depth,
                             sig_duration = duration, sig_error = [] \<rparr>))"
  using assms(1-4) unfolding StreamURLReceived_def after_reply_def
  by (simp only: option.case prod.case Let_def if_False)


lemma errors_Error: "e \<noteq> [] \<Longrightarrow> errors (Error e st) \<noteq> []"
  by (simp add: Error_def)

lemma st2_fields:
  "request_id (report_errors es2 (after_reply es1 st)) = request_id st \<and>
   original_url (report_errors es2 (after_reply es1 st)) = original_url st \<and>
   song_id (report_errors es2 (after_reply es1 st)) = song_id st"
  by (simp add: report_errors_fields after_reply_fields)

lemma SUR_failing:
  assumes r: "reply st = Some r" "GetReplyData api r = (data, errs1)"
    and j: "ExtractJsonObj api data = (json_obj, errs2)"
    and h: "data = [] \<and> \<not> (\<not> authenticated api \<and> login_sent api \<and> tries st \<le> 1) \<or>
       data \<noteq> [] \<and>
       (json_obj = [] \<or>
        \<not> json_contains json_obj ''track_id'' \<or>
        toInt api (json_value api json_obj ''track_id'') \<noteq> song_id st \<or>
        \<not> json_contains json_obj ''mime_type'' \<or>
        \<not> json_contains json_obj ''url'' \<or>
        \<not> url_isValid api (toString api (json_value api json_obj ''url'')))"
  shows "\<exists>ft s. StreamURLReceived api ops k st = emit_error ft s \<and>
           request_id s = request_id st \<and> original_url s = original_url st \<and>
           (data \<noteq> [] \<and> json_obj \<noteq> [] \<longrightarrow> errors s \<noteq> [])"
proof -
  let ?st2 = "report_errors errs2 (after_reply errs1 st)"
  consider
      (a) "data = []" "\<not> (\<not> authenticated api \<and> login_sent api \<and> tries st \<le> 1)"
    | (b) "data \<noteq> []" "json_obj = []"
    | (c) "data \<noteq> []" "json_obj \<noteq> []" "\<not> json_contains json_obj ''track_id''"
    | (d) "data \<noteq> []" "json_obj \<noteq> []" "json_contains json_obj ''track_id''"
          "toInt api (json_value api json_obj ''track_id'') \<noteq> song_id st"
    | (e) "data \<noteq> []" "json_obj \<noteq> []" "json_contains json_obj ''track_id''"
          "toInt api (json_value api json_obj ''track_id'') = song_id st"
          "\<not> json_contains json_obj ''mime_type'' \<or> \<not> json_contains json_obj ''url''"
    | (f) "data \<noteq> []" "json_obj \<noteq> []" "json_contains json_obj ''track_id''"
          "toInt api (json_value api json_obj ''track_id'') = song_id st"
          "json_contains json_obj ''mime_type''" "json_contains json_obj ''url''"
          "\<not> url_isValid api (toString api (json_value api json_obj ''url''))"
    using h by blast
  then show ?thesis
  proof cases
    case a
    have "StreamURLReceived api ops k st = emit_error FileType_Stream (after_reply errs1 st)"
      using r a by (rule SUR_no_data)
    then show ?thesis using after_reply_fields[of errs1 st] a(1) by blast
  next
    case b
    have "StreamURLReceived api ops k st = emit_error FileType_Stream ?st2"
      using SUR_data[OF r b(1) j, of ops k] b(2) by (simp add: Let_def)
    then show ?thesis using st2_fields[of errs2 errs1 st] b(2) by blast
  next
    case c
    have "StreamURLReceived api ops k st = emit_error FileType_Stream
            (Error ''Invalid Json reply, stream url is missing track_id.'' ?st2)"
      using SUR_data[OF r c(1) j, of ops k] c(2,3) by (simp add: Let_def)
    then show ?thesis using st2_fields[of errs2 errs1 st] Error_fields errors_Error
      by (metis list.distinct(1))
  next
    case d
    have "StreamURLReceived api ops k st = emit_error FileType_Stream
            (Error ''Incorrect track ID returned.'' ?st2)"
      using SUR_data[OF r d(1) j, of ops k] d(2-4) by (simp add: Let_def st2_fields)
    then show ?thesis using st2_fields[of errs2 errs1 st] Error_fields errors_Error
      by (metis list.distinct(1))
  next
    case e
    have "StreamURLReceived api ops k st = emit_error FileType_Stream
            (Error ''Invalid Json reply, stream url is missing url or mime_type.'' ?st2)"
      using SUR_data[OF r e(1) j, of ops k] e(2-5) by (auto simp add: Let_def st2_fields)
    then show ?thesis using st2_fields[of errs2 errs1 st] Error_fields errors_Error
      by (metis list.distinct(1))
  next
    case f
    have "\<exists>ft. StreamURLReceived api ops k st = emit_error ft
            (Error ''Returned stream url is invalid.'' ?st2)"
      using SUR_data[OF r f(1) j, of ops k] f(2-7) by (auto simp add: Let_def st2_fields)
    then show ?thesis using st2_fields[of errs2 errs1 st] Error_fields errors_Error
      by (metis list.distinct(1))
  qed
qed

lemma SUR_passing:
  assumes r: "reply st = Some r" "GetReplyData api r = (data, errs1)"
    and j: "ExtractJsonObj api data = (json_obj, errs2)"
    and h: "data \<noteq> []" "json_obj \<noteq> []"
      "json_contains json_obj ''track_id''"
      "toInt api (json_value api json_obj ''track_id'') = song_id st"
      "json_contains json_obj ''mime_type''"
      "json_contains json_obj ''url''"
      "url_isValid api (toString api (json_value api json_obj ''url''))"
  shows "\<exists>filetype samplerate bit_depth duration.
           StreamURLReceived api ops k st =
            (report_errors errs2 (after_reply errs1 st),
             Emit \<lparr> sig_id = request_id st, sig_original_url = original_url st,
                        sig_stream_url = toString api (json_value api json_obj ''url''),
                        sig_filetype = filetype, sig_samplerate = samplerate,
                        sig_bit_depth = bit_depth, sig_duration = duration,
                        sig_error = [] \<rparr>)"
  using SUR_data[OF r h(1) j, of ops k] h(2-7) by (simp add: Let_def st2_fields)


text \<open>
  C6, as the claim states it, fails. The reply data is empty, the service is not
  authenticated, a login has been sent and this was the first try: the request sets
  \<open>need_login_\<close> and returns, to be run again when the login completes. It emits nothing.
\<close>

theorem StreamURLReceived_counterexample:
  "fst (GetReplyData (qobuz_api0 empty_reply False) empty_reply) = [] \<and>
   StreamURLReceived (qobuz_api0 empty_reply False) rat_ops 1000000000 (request0 empty_reply) =
     ((request0 empty_reply)\<lparr>reply := None, need_login := True,
                              errors := [''Host not found (3)'']\<rparr>, Nothing)"
  by (simp add: StreamURLReceived_def qobuz_api0_def empty_reply_def request0_def
      report_errors_def Error_def)

text \<open>
  C6, amended. For a request with a reply:
  when the reply data is empty, the service is not authenticated, a login has been sent
  and \<open>tries_\<close> is at most 1, nothing is emitted and \<open>need_login_\<close> is set;
  when the reply data is empty otherwise, or the extracted JSON object is empty, and an
  error has been recorded, StreamURLFinished is emitted with the original URL as the stream
  URL and the first recorded error;
  when the JSON lacks \<open>track_id\<close>, the track id is not the requested song id, the JSON
  lacks \<open>mime_type\<close> or \<open>url\<close>, or the URL is not valid, an error is recorded and
  StreamURLFinished is emitted with the original URL as the stream URL and the first
  recorded error;
  when all checks pass, StreamURLFinished is emitted with the returned URL and an empty
  error.
\<close>

theorem StreamURLReceived_validation:
  assumes "reply st = Some r"
    and "GetReplyData api r = (data, errs1)"
    and "ExtractJsonObj api data = (json_obj, errs2)"
    and "StreamURLReceived api ops kNsecPerSec st = (st', out)"
  shows
    "(data = [] \<and> \<not> authenticated api \<and> login_sent api \<and> tries st \<le> 1 \<longrightarrow>
        out = Nothing \<and> need_login st') \<and>
     ((data = [] \<and> \<not> (\<not> authenticated api \<and> login_sent api \<and> tries st \<le> 1) \<or>
       data \<noteq> [] \<and> json_obj = []) \<and> errors st' \<noteq> [] \<longrightarrow>
        (\<exists>filetype.
           out = Emit \<lparr> sig_id = request_id st, sig_original_url = original_url st,
                        sig_stream_url = original_url st, sig_filetype = filetype,
                        sig_samplerate = - 1, sig_bit_depth = - 1, sig_duration = - 1,
                        sig_error = hd (errors st') \<rparr>)) \<and>
     (data \<noteq> [] \<and> json_obj \<noteq> [] \<and>
       (\<not> json_contains json_obj ''track_id'' \<or>
        toInt api (json_value api json_obj ''track_id'') \<noteq> song_id st \<or>
        \<not> json_contains json_obj ''mime_type'' \<or>
        \<not> json_contains json_obj ''url'' \<or>
        \<not> url_isValid api (toString api (json_value api json_obj ''url''))) \<longrightarrow>
        errors st' \<noteq> [] \<and>
        (\<exists>filetype.
           out = Emit \<lparr> sig_id = request_id st, sig_original_url = original_url st,
                        sig_stream_url = original_url st, sig_filetype = filetype,
                        sig_samplerate = - 1, sig_bit_depth = - 1, sig_duration = - 1,
                        sig_error = hd (errors st') \<rparr>)) \<and>
     (data \<noteq> [] \<and> json_obj \<noteq> [] \<and>
      json_contains json_obj ''track_id'' \<and>
      toInt api (json_value api json_obj ''track_id'') = song_id st \<and>
      json_contains json_obj ''mime_type'' \<and>
      json_contains json_obj ''url'' \<and>
      url_isValid api (toString api (json_value api json_obj ''url'')) \<longrightarrow>
        (\<exists>filetype samplerate bit_depth duration.
           out = Emit \<lparr> sig_id = request_id st, sig_original_url = original_url st,
                        sig_stream_url = toString api (json_value api json_obj ''url''),
                        sig_filetype = filetype, sig_samplerate = samplerate,
                        sig_bit_depth = bit_depth, sig_duration = duration,
                        sig_error = [] \<rparr>))"
proof -
  have retry: "out = Nothing \<and> need_login st'"
    if "data = [] \<and> \<not> authenticated api \<and> login_sent api \<and> tries st \<le> 1"
  proof -
    have "StreamURLReceived api ops kNsecPerSec st =
          ((after_reply errs1 st)\<lparr>need_login := True\<rparr>, Nothing)"
      using assms(1,2) that by (intro SUR_retry) simp_all
    with assms(4) show ?thesis by auto
  qed
  have emitted: "(data \<noteq> [] \<and> json_obj \<noteq> [] \<longrightarrow> errors st' \<noteq> []) \<and>
      (errors st' \<noteq> [] \<longrightarrow>
        (\<exists>filetype.
           out = Emit \<lparr> sig_id = request_id st, sig_original_url = original_url st,
                        sig_stream_url = original_url st, sig_filetype = filetype,
                        sig_samplerate = - 1, sig_bit_depth = - 1, sig_duration = - 1,
                        sig_error = hd (errors st') \<rparr>))"
    if h: "data = [] \<and> \<not> (\<not> authenticated api \<and> login_sent api \<and> tries st \<le> 1) \<or>
       data \<noteq> [] \<and>
       (json_obj = [] \<or>
        \<not> json_contains json_obj ''track_id'' \<or>
        toInt api (json_value api json_obj ''track_id'') \<noteq> song_id st \<or>
        \<not> json_contains json_obj ''mime_type'' \<or>
        \<not> json_contains json_obj ''url'' \<or>
        \<not> url_isValid api (toString api (json_value api json_obj ''url'')))"
  proof -
    from SUR_failing[OF assms(1-3) h, of ops kNsecPerSec]
    obtain ft s where s: "StreamURLReceived api ops kNsecPerSec st = emit_error ft s"
      "request_id s = request_id st" "original_url s = original_url st"
      "data \<noteq> [] \<and> json_obj \<noteq> [] \<longrightarrow> errors s \<noteq> []" by blast
    from s(1) assms(4) have eq: "st' = s" by (simp add: emit_error_def)
    have "\<exists>filetype.
           out = Emit \<lparr> sig_id = request_id st, sig_original_url = original_url st,
                        sig_stream_url = original_url st, sig_filetype = filetype,
                        sig_samplerate = - 1, sig_bit_depth = - 1, sig_duration = - 1,
                        sig_error = hd (errors st') \<rparr>" if ne: "errors st' \<noteq> []"
    proof -
      from ne eq have "errors s \<noteq> []" by simp
      from emit_error_nonempty[OF this, of ft] s(1-3) assms(4) eq
      show ?thesis by auto
    qed
    with s(4) eq show ?thesis by blast
  qed
  have passing: "\<exists>filetype samplerate bit_depth duration.
           out = Emit \<lparr> sig_id = request_id st, sig_original_url = original_url st,
                        sig_stream_url = toString api (json_value api json_obj ''url''),
                        sig_filetype = filetype, sig_samplerate = samplerate,
                        sig_bit_depth = bit_depth, sig_duration = duration,
                        sig_error = [] \<rparr>"
    if "data \<noteq> [] \<and> json_obj \<noteq> [] \<and>
      json_contains json_obj ''track_id'' \<and>
      toInt api (json_value api json_obj ''track_id'') = song_id st \<and>
      json_contains json_obj ''mime_type'' \<and>
      json_contains json_obj ''url'' \<and>
      url_isValid api (toString api (json_value api json_obj ''url''))"
  proof -
    from that SUR_passing[OF assms(1-3), of ops kNsecPerSec] assms(4)
    show ?thesis by auto
  qed
  show ?thesis
    using retry emitted passing by blast
qed


lemma eval_empty_retry:
  "StreamURLReceived (qobuz_api0 empty_reply False) rat_ops 1000000000 (request0 empty_reply) =
     ((request0 empty_reply)\<lparr>reply := None, need_login := True,
                              errors := [''Host not found (3)'']\<rparr>, Nothing)"
  by (simp add: StreamURLReceived_def qobuz_api0_def empty_reply_def request0_def
      report_errors_def Error_def)

lemma eval_empty:
  "StreamURLReceived (qobuz_api0 empty_reply True) rat_ops 1000000000 (request0 empty_reply) =
     ((request0 empty_reply)\<lparr>reply := None, errors := [''Host not found (3)'']\<rparr>,
      Emit \<lparr> sig_id = 9, sig_original_url = ''qobuz:42'', sig_stream_url = ''qobuz:42'',
             sig_filetype = FileType_Stream, sig_samplerate = - 1, sig_bit_depth = - 1,
             sig_duration = - 1, sig_error = ''Host not found (3)'' \<rparr>)"
  by (simp add: StreamURLReceived_def qobuz_api0_def empty_reply_def request0_def
      report_errors_def Error_def emit_error_def)

lemma eval_wrong_track:
  "StreamURLReceived (qobuz_api0 wrong_track_reply True) rat_ops 1000000000
     (request0 wrong_track_reply) =
     ((request0 wrong_track_reply)\<lparr>reply := None, errors := [''Incorrect track ID returned.'']\<rparr>,
      Emit \<lparr> sig_id = 9, sig_original_url = ''qobuz:42'', sig_stream_url = ''qobuz:42'',
             sig_filetype = FileType_Stream, sig_samplerate = - 1, sig_bit_depth = - 1,
             sig_duration = - 1, sig_error = ''Incorrect track ID returned.'' \<rparr>)"
  by (simp add: StreamURLReceived_def qobuz_api0_def wrong_track_reply_def request0_def
      report_errors_def Error_def emit_error_def json_contains_def json_value_def)

lemma eval_good:
  "StreamURLReceived (qobuz_api0 good_reply True) rat_ops 1000000000 (request0 good_reply) =
     ((request0 good_reply)\<lparr>reply := None\<rparr>,
      Emit \<lparr> sig_id = 9, sig_original_url = ''qobuz:42'',
             sig_stream_url = ''https://streaming.example/42.flac'',
             sig_filetype = FileType_Other 1, sig_samplerate = - 1, sig_bit_depth = - 1,
             sig_duration = 180000000000, sig_error = [] \<rparr>)"
  by (simp add: StreamURLReceived_def qobuz_api0_def good_reply_def request0_def
      report_errors_def Error_def emit_error_def json_contains_def json_value_def)

theorem StreamURLReceived_validation_witness:
  "snd (StreamURLReceived (qobuz_api0 empty_reply False) rat_ops 1000000000
          (request0 empty_reply)) = Nothing \<and>
   (\<exists>filetype.
      snd (StreamURLReceived (qobuz_api0 empty_reply True) rat_ops 1000000000
             (request0 empty_reply)) =
      Emit \<lparr> sig_id = 9, sig_original_url = ''qobuz:42'', sig_stream_url = ''qobuz:42'',
             sig_filetype = filetype, sig_samplerate = - 1, sig_bit_depth = - 1,
             sig_duration = - 1, sig_error = ''Host not found (3)'' \<rparr>) \<and>
   (\<exists>filetype.
      snd (StreamURLReceived (qobuz_api0 wrong_track_reply True) rat_ops 1000000000
             (request0 wrong_track_reply)) =
      Emit \<lparr> sig_id = 9, sig_original_url = ''qobuz:42'', sig_stream_url = ''qobuz:42'',
             sig_filetype = filetype, sig_samplerate = - 1, sig_bit_depth = - 1,
             sig_duration = - 1, sig_error = ''Incorrect track ID returned.'' \<rparr>) \<and>
   (\<exists>filetype samplerate bit_depth duration.
      snd (StreamURLReceived (qobuz_api0 good_reply True) rat_ops 1000000000
             (request0 good_reply)) =
      Emit \<lparr> sig_id = 9, sig_original_url = ''qobuz:42'',
             sig_stream_url = ''https://streaming.example/42.flac'',
             sig_filetype = filetype, sig_samplerate = samplerate, sig_bit_depth = bit_depth,
             sig_duration = duration, sig_error = [] \<rparr>)"
proof (intro conjI)
  have r: "reply (request0 empty_reply) = Some empty_reply" by (simp add: request0_def)
  have g: "GetReplyData (qobuz_api0 empty_reply False) empty_reply = ([], [''Host not found (3)''])"
    by (simp add: qobuz_api0_def empty_reply_def)
  have j: "ExtractJsonObj (qobuz_api0 empty_reply False) [] = ([], [''Json document is empty''])"
    by (simp add: qobuz_api0_def empty_reply_def)
  show "snd (StreamURLReceived (qobuz_api0 empty_reply False) rat_ops 1000000000
          (request0 empty_reply)) = Nothing"
    using StreamURLReceived_validation [OF r g j eval_empty_retry]
    by (simp add: eval_empty_retry)
next
  have r: "reply (request0 empty_reply) = Some empty_reply" by (simp add: request0_def)
  have g: "GetReplyData (qobuz_api0 empty_reply True) empty_reply = ([], [''Host not found (3)''])"
    by (simp add: qobuz_api0_def empty_reply_def)
  have j: "ExtractJsonObj (qobuz_api0 empty_reply True) [] = ([], [''Json document is empty''])"
    by (simp add: qobuz_api0_def empty_reply_def)
  show "\<exists>filetype.
      snd (StreamURLReceived (qobuz_api0 empty_reply True) rat_ops 1000000000
             (request0 empty_reply)) =
      Emit \<lparr> sig_id = 9, sig_original_url = ''qobuz:42'', sig_stream_url = ''qobuz:42'',
             sig_filetype = filetype, sig_samplerate = - 1, sig_bit_depth = - 1,
             sig_duration = - 1, sig_error = ''Host not found (3)'' \<rparr>"
    using StreamURLReceived_validation [OF r g j eval_empty]
    by (simp add: eval_empty)
next
  have r: "reply (request0 wrong_track_reply) = Some wrong_track_reply" by (simp add: request0_def)
  have g: "GetReplyData (qobuz_api0 wrong_track_reply True) wrong_track_reply = (''{...}'', [])"
    by (simp add: qobuz_api0_def wrong_track_reply_def)
  have j: "ExtractJsonObj (qobuz_api0 wrong_track_reply True) ''{...}'' =
             (parsed wrong_track_reply, [])"
    by (simp add: qobuz_api0_def wrong_track_reply_def)
  show "\<exists>filetype.
      snd (StreamURLReceived (qobuz_api0 wrong_track_reply True) rat_ops 1000000000
             (request0 wrong_track_reply)) =
      Emit \<lparr> sig_id = 9, sig_original_url = ''qobuz:42'', sig_stream_url = ''qobuz:42'',
             sig_filetype = filetype, sig_samplerate = - 1, sig_bit_depth = - 1,
             sig_duration = - 1, sig_error = ''Incorrect track ID returned.'' \<rparr>"
    using StreamURLReceived_validation [OF r g j eval_wrong_track]
    by (simp add: eval_wrong_track)
next
  have r: "reply (request0 good_reply) = Some good_reply" by (simp add: request0_def)
  have g: "GetReplyData (qobuz_api0 good_reply True) good_reply = (''{...}'', [])"
    by (simp add: qobuz_api0_def good_reply_def)
  have j: "ExtractJsonObj (qobuz_api0 good_reply True) ''{...}'' = (parsed good_reply, [])"
    by (simp add: qobuz_api0_def good_reply_def)
  show "\<exists>filetype samplerate bit_depth duration.
      snd (StreamURLReceived (qobuz_api0 good_reply True) rat_ops 1000000000
             (request0 good_reply)) =
      Emit \<lparr> sig_id = 9, sig_original_url = ''qobuz:42'',
             sig_stream_url = ''https://streaming.example/42.flac'',
             sig_filetype = filetype, sig_samplerate = samplerate, sig_bit_depth = bit_depth,
             sig_duration = duration, sig_error = [] \<rparr>"
    using StreamURLReceived_validation [OF r g j eval_good]
    by (simp add: eval_good)
qed


section \<open>Theorems: log levels\<close>

text \<open>
  C10, as the claim states it, fails. Before \<open>Init()\<close> has run the pointer
  \<open>sClassLevels\<close> is null and \<open>SetLevels\<close> returns at once: the conforming item
  \<open>*:1\<close> does not set the default level, which stays at 3.
\<close>

theorem SetLevels_uninitialised_counterexample:
  "conforming toInt_decimal 0 3 ''*:1'' 1 \<and>
   sDefaultLevel (SetLevels toInt_decimal 0 3 ''*:1'' \<lparr>sDefaultLevel = 3, sClassLevels = None\<rparr>) = 3"
  by (simp add: SetLevels_def conforming_def toInt_decimal_def)

text \<open>
  C10, amended. When \<open>sClassLevels\<close> is null \<open>SetLevels\<close> changes nothing. Otherwise it
  runs the loop body on every comma-separated item of the string, in order, and for every
  item and every state in which the loop body runs: an item that does not conform changes
  nothing; a conforming item whose class name is empty or \<open>*\<close> sets the default level to
  its level; a conforming item with any other class name sets the level of that class.
\<close>

theorem SetLevels_items:
  "(sClassLevels st = None \<longrightarrow> SetLevels t lo hi levels st = st) \<and>
   (sClassLevels st \<noteq> None \<longrightarrow>
      SetLevels t lo hi levels st = fold (SetLevels_item t lo hi) (split CHR '','' levels) st) \<and>
   (\<not> (\<exists>n. conforming t lo hi item n) \<longrightarrow> SetLevels_item t lo hi item st = st) \<and>
   (conforming t lo hi item n \<and> (class_name_of item = [] \<or> class_name_of item = ''*'') \<longrightarrow>
      SetLevels_item t lo hi item st = st\<lparr>sDefaultLevel := n\<rparr>) \<and>
   (conforming t lo hi item n \<and> class_name_of item \<noteq> [] \<and> class_name_of item \<noteq> ''*'' \<and>
    sClassLevels st = Some m \<longrightarrow>
      SetLevels_item t lo hi item st = st\<lparr>sClassLevels := Some (m(class_name_of item \<mapsto> n))\<rparr>)"
proof -
  have a: "sClassLevels st = None \<longrightarrow> SetLevels t lo hi levels st = st"
    by (simp add: SetLevels_def)
  have b: "sClassLevels st \<noteq> None \<longrightarrow>
      SetLevels t lo hi levels st = fold (SetLevels_item t lo hi) (split CHR '','' levels) st"
    by (auto simp add: SetLevels_def)
  have c: "\<not> (\<exists>n. conforming t lo hi item n) \<longrightarrow> SetLevels_item t lo hi item st = st"
    by (auto simp add: SetLevels_item_def conforming_def Let_def split: option.splits)
  have d: "conforming t lo hi item n \<and> (class_name_of item = [] \<or> class_name_of item = ''*'') \<longrightarrow>
      SetLevels_item t lo hi item st = st\<lparr>sDefaultLevel := n\<rparr>"
    by (auto simp add: SetLevels_item_def conforming_def class_name_of_def Let_def
        split: option.splits)
  have e: "conforming t lo hi item n \<and> class_name_of item \<noteq> [] \<and> class_name_of item \<noteq> ''*'' \<and>
    sClassLevels st = Some m \<longrightarrow>
      SetLevels_item t lo hi item st = st\<lparr>sClassLevels := Some (m(class_name_of item \<mapsto> n))\<rparr>"
    by (auto simp add: SetLevels_item_def conforming_def class_name_of_def Let_def
        split: option.splits)
  show ?thesis using a b c d e by blast
qed

lemma eval_SetLevels:
  "SetLevels toInt_decimal 0 3 ''GstEnginePipeline:2,*:1,x:9,a:b:1,:2x'' logging0 =
     \<lparr>sDefaultLevel = 1, sClassLevels = Some [''GstEnginePipeline'' \<mapsto> 2]\<rparr>"
  by (simp add: SetLevels_def SetLevels_item_def logging0_def toInt_decimal_def)

theorem SetLevels_items_witness:
  "SetLevels toInt_decimal 0 3 ''*:1'' \<lparr>sDefaultLevel = 3, sClassLevels = None\<rparr> =
     \<lparr>sDefaultLevel = 3, sClassLevels = None\<rparr> \<and>
   SetLevels toInt_decimal 0 3 ''GstEnginePipeline:2,*:1,x:9,a:b:1,:2x'' logging0 =
     \<lparr>sDefaultLevel = 1, sClassLevels = Some [''GstEnginePipeline'' \<mapsto> 2]\<rparr> \<and>
   SetLevels_item toInt_decimal 0 3 ''x:9'' logging0 = logging0 \<and>
   SetLevels_item toInt_decimal 0 3 ''2'' logging0 = logging0\<lparr>sDefaultLevel := 2\<rparr> \<and>
   SetLevels_item toInt_decimal 0 3 ''GstEnginePipeline:2'' logging0 =
     logging0\<lparr>sClassLevels := Some [''GstEnginePipeline'' \<mapsto> 2]\<rparr>"
proof (intro conjI)
  show "SetLevels toInt_decimal 0 3 ''*:1'' \<lparr>sDefaultLevel = 3, sClassLevels = None\<rparr> =
     \<lparr>sDefaultLevel = 3, sClassLevels = None\<rparr>"
    using SetLevels_items
      [of "\<lparr>sDefaultLevel = 3, sClassLevels = None\<rparr>" toInt_decimal 0 3 "''*:1''"]
    by simp
  show "SetLevels toInt_decimal 0 3 ''GstEnginePipeline:2,*:1,x:9,a:b:1,:2x'' logging0 =
     \<lparr>sDefaultLevel = 1, sClassLevels = Some [''GstEnginePipeline'' \<mapsto> 2]\<rparr>"
    using SetLevels_items
      [of logging0 toInt_decimal 0 3 "''GstEnginePipeline:2,*:1,x:9,a:b:1,:2x''"]
    by (simp add: eval_SetLevels)
  have nc: "\<not> (\<exists>n. conforming toInt_decimal 0 3 ''x:9'' n)"
    by (simp add: conforming_def toInt_decimal_def)
  show "SetLevels_item toInt_decimal 0 3 ''x:9'' logging0 = logging0"
    using SetLevels_items [of logging0 toInt_decimal 0 3 "[]" "''x:9''"] nc
    by blast
  have c2: "conforming toInt_decimal 0 3 ''2'' 2 \<and> class_name_of ''2'' = []"
    by (simp add: conforming_def toInt_decimal_def class_name_of_def)
  show "SetLevels_item toInt_decimal 0 3 ''2'' logging0 = logging0\<lparr>sDefaultLevel := 2\<rparr>"
    using SetLevels_items [of logging0 toInt_decimal 0 3 "[]" "''2''" 2] c2
    by blast
  have c3: "conforming toInt_decimal 0 3 ''GstEnginePipeline:2'' 2 \<and>
            class_name_of ''GstEnginePipeline:2'' = ''GstEnginePipeline'' \<and>
            sClassLevels logging0 = Some Map.empty"
    by (simp add: conforming_def toInt_decimal_def class_name_of_def logging0_def)
  show "SetLevels_item toInt_decimal 0 3 ''GstEnginePipeline:2'' logging0 =
     logging0\<lparr>sClassLevels := Some [''GstEnginePipeline'' \<mapsto> 2]\<rparr>"
    using SetLevels_items
      [of logging0 toInt_decimal 0 3 "[]" "''GstEnginePipeline:2''" 2 Map.empty] c3
    by simp
qed


section \<open>Theorems: the stretch header view\<close>

lemma isSectionHidden_hideSection:
  "isSectionHidden (hideSection l h) i = (isSectionHidden h i \<or> (i = l \<and> valid_index h l))"
  by (auto simp add: isSectionHidden_def hideSection_def setSectionHidden_def valid_index_def
      count_def nth_list_update)

lemma count_hideSection: "count (hideSection l h) = count h"
  by (simp add: hideSection_def setSectionHidden_def count_def)

lemma stretch_hideSection: "stretch_enabled (hideSection l h) = stretch_enabled h"
  by (simp add: hideSection_def setSectionHidden_def)

lemma HideSection_guard:
  assumes "\<forall>i < count h. int i \<noteq> logical \<longrightarrow> isSectionHidden h (int i) \<or> sectionSize h (int i) = 0"
  shows "HideSection ops logical h = Some h"
proof -
  have "list_all (\<lambda>i. \<not> (int i \<noteq> logical \<and> \<not> isSectionHidden h (int i) \<and>
                              sectionSize h (int i) > 0)) [0..<count h]"
    using assms by (auto simp add: list_all_iff)
  then show ?thesis by (simp add: HideSection_def)
qed

lemma HideSection_plain:
  assumes "\<not> stretch_enabled h" "some_visible h"
  shows "\<exists>h'. HideSection ops logical h = Some h' \<and> \<not> stretch_enabled h' \<and> some_visible h'"
proof (cases "list_all (\<lambda>i. \<not> (int i \<noteq> logical \<and> \<not> isSectionHidden h (int i) \<and>
                              sectionSize h (int i) > 0)) [0..<count h]")
  case True
  then have "HideSection ops logical h = Some h" by (simp add: HideSection_def)
  with assms show ?thesis by simp
next
  case False
  then obtain i where i: "i < count h" "int i \<noteq> logical" "\<not> isSectionHidden h (int i)"
    by (auto simp add: list_all_iff)
  have eq: "HideSection ops logical h = Some (hideSection logical h)"
    using False assms(1) by (simp add: HideSection_def)
  have "\<not> isSectionHidden (hideSection logical h) (int i)"
    using i by (simp add: isSectionHidden_hideSection)
  then have "some_visible (hideSection logical h)"
    using i(1) by (auto simp add: some_visible_def list_ex_iff count_hideSection)
  with eq assms(1) show ?thesis by (simp add: stretch_hideSection)
qed

lemma HideSections_plain:
  "\<not> stretch_enabled h \<Longrightarrow> some_visible h \<Longrightarrow>
   \<exists>h'. HideSections ops ls h = Some h' \<and> \<not> stretch_enabled h' \<and> some_visible h'"
proof (induction ls arbitrary: h)
  case Nil
  then show ?case by simp
next
  case (Cons l ls)
  from HideSection_plain[OF Cons.prems, of ops l] obtain h1 where
    h1: "HideSection ops l h = Some h1" "\<not> stretch_enabled h1" "some_visible h1" by blast
  from Cons.IH[OF h1(2,3)] h1(1) show ?case by simp
qed

lemma read_magic: "read_int32 [0x50, 0x2c, 0x95, 0x0f] = (kMagicNumber, [])"
  by code_simp

lemma read_magic_more: "read_int32 [0x50, 0x2c, 0x95, 0x0f, 0x01] = (kMagicNumber, [1])"
  by code_simp

lemma read_other: "read_int32 [1, 2, 3, 4, 5] = (16909060, [5])"
  by code_simp

lemma read_short: "read_int32 [0x50, 0x2c] = (0, [])"
  by code_simp

lemma kMagic_ne: "kMagicNumber \<noteq> 16909060" "kMagicNumber \<noteq> 0"
  by (simp_all add: kMagicNumber_def)

text \<open>
  C9. When the first integer read from the data is not the magic number 0x502c950f, or
  nothing follows it, \<open>RestoreState\<close> returns false and the header view is as it was: the
  stretch flag, the column widths, the sort indicator and the visibility, position and size
  of every section are unchanged. Otherwise it returns true.
\<close>

theorem RestoreState_rejects:
  "(fst (read_int32 sdata) \<noteq> kMagicNumber \<or> snd (read_int32 sdata) = [] \<longrightarrow>
      RestoreState ops read_fields sdata h = (False, h)) \<and>
   (fst (read_int32 sdata) = kMagicNumber \<and> snd (read_int32 sdata) \<noteq> [] \<longrightarrow>
      fst (RestoreState ops read_fields sdata h))"
  by (auto simp add: RestoreState_def Let_def split: prod.splits)

theorem RestoreState_rejects_witness:
  "(\<forall>read_fields. RestoreState rat_ops read_fields [1, 2, 3, 4, 5] header0 = (False, header0)) \<and>
   (\<forall>read_fields. RestoreState rat_ops read_fields [0x50, 0x2c, 0x95, 0x0f] header0 =
      (False, header0)) \<and>
   (\<forall>read_fields. RestoreState rat_ops read_fields [0x50, 0x2c] header0 = (False, header0)) \<and>
   (\<forall>read_fields. fst (RestoreState rat_ops read_fields [0x50, 0x2c, 0x95, 0x0f, 0x01] header0))"
  using RestoreState_rejects [of "[1, 2, 3, 4, 5]" rat_ops _ header0]
        RestoreState_rejects [of "[0x50, 0x2c, 0x95, 0x0f]" rat_ops _ header0]
        RestoreState_rejects [of "[0x50, 0x2c]" rat_ops _ header0]
        RestoreState_rejects [of "[0x50, 0x2c, 0x95, 0x0f, 0x01]" rat_ops _ header0]
  by (simp add: read_magic read_magic_more read_other read_short kMagic_ne)

text \<open>
  What the check at the start of \<open>HideSection\<close> gives. If every section other than the
  given one is hidden or has size 0, \<open>HideSection\<close> returns without changing the header
  view. Hence, when stretch mode is off and some section is visible, after any sequence of
  \<open>HideSection\<close> calls some section is still visible.
\<close>

lemma HideSection_keeps_last:
  "((\<forall>i < count h. int i \<noteq> logical \<longrightarrow>
        isSectionHidden h (int i) \<or> sectionSize h (int i) = 0) \<longrightarrow>
      HideSection ops logical h = Some h) \<and>
   (\<not> stretch_enabled h \<and> some_visible h \<longrightarrow>
      (\<exists>h'. HideSections ops ls h = Some h' \<and> \<not> stretch_enabled h' \<and> some_visible h'))"
  using HideSection_guard [of h logical ops] HideSections_plain [of h ops ls] by blast

text \<open>
  In stretch mode, a call of \<open>HideSection\<close> that passes the check leaves a section hidden
  exactly when its width in pixels is 0, whatever the arithmetic of doubles is: the check
  does not look at the widths in pixels.
\<close>

lemma setSectionHidden_fields:
  "count (setSectionHidden l b h) = count h"
  "column_widths (setSectionHidden l b h) = column_widths h"
  "view_width (setSectionHidden l b h) = view_width h"
  "stretch_enabled (setSectionHidden l b h) = stretch_enabled h"
  by (simp_all add: setSectionHidden_def count_def)

lemma resizeSection_fields:
  "count (resizeSection l px h) = count h"
  "column_widths (resizeSection l px h) = column_widths h"
  "view_width (resizeSection l px h) = view_width h"
  "stretch_enabled (resizeSection l px h) = stretch_enabled h"
  by (simp_all add: resizeSection_def count_def)

lemma isSectionHidden_setSectionHidden:
  "isSectionHidden (setSectionHidden l b h) j =
     (if j = l \<and> valid_index h l then b else isSectionHidden h j)"
  by (auto simp add: isSectionHidden_def setSectionHidden_def valid_index_def count_def
      nth_list_update)

lemma isSectionHidden_resizeSection:
  "isSectionHidden (resizeSection l px h) j = isSectionHidden h j"
  by (auto simp add: isSectionHidden_def resizeSection_def valid_index_def count_def
      nth_list_update split: if_splits)

lemma UpdateWidths_loop_fields:
  "count (UpdateWidths_loop ops [] is h) = count h \<and>
   column_widths (UpdateWidths_loop ops [] is h) = column_widths h \<and>
   view_width (UpdateWidths_loop ops [] is h) = view_width h"
  by (induction "is" arbitrary: h)
     (simp_all add: Let_def hideSection_def showSection_def setSectionHidden_fields
        resizeSection_fields)

lemma UpdateWidths_loop_hidden:
  "distinct is \<Longrightarrow>
   isSectionHidden (UpdateWidths_loop ops [] is h) (int j) =
     (if j \<in> set is \<and> j < count h then pixel_width ops h j = 0 else isSectionHidden h (int j))"
proof (induction "is" arbitrary: h)
  case Nil
  show ?case by simp
next
  case (Cons i "is")
  define h1 where "h1 =
     (if pixel_width ops h i = 0 \<and> \<not> isSectionHidden h (int i) then hideSection (int i) h
      else if pixel_width ops h i \<noteq> 0 \<and> isSectionHidden h (int i) then showSection (int i) h
      else h)"
  define h2 where "h2 =
     (if pixel_width ops h i \<noteq> 0 then resizeSection (int i) (pixel_width ops h i) h1 else h1)"
  have step: "UpdateWidths_loop ops [] (i # is) h = UpdateWidths_loop ops [] is h2"
    by (simp add: Let_def pixel_width_def h1_def h2_def)
  have f1: "count h1 = count h" "column_widths h1 = column_widths h" "view_width h1 = view_width h"
    by (simp_all add: h1_def hideSection_def showSection_def setSectionHidden_fields)
  have f: "count h2 = count h" "column_widths h2 = column_widths h" "view_width h2 = view_width h"
    by (simp_all add: h2_def f1 resizeSection_fields)
  have hid1: "isSectionHidden h1 (int j) =
     (if j = i \<and> i < count h then pixel_width ops h i = 0 else isSectionHidden h (int j))" for j
    by (auto simp add: h1_def hideSection_def showSection_def isSectionHidden_setSectionHidden
        valid_index_def)
  have hid: "isSectionHidden h2 (int j) =
     (if j = i \<and> i < count h then pixel_width ops h i = 0 else isSectionHidden h (int j))" for j
    by (simp add: h2_def isSectionHidden_resizeSection hid1)
  have pw: "pixel_width ops h2 j = pixel_width ops h j" for j
    by (simp add: pixel_width_def f)
  from Cons.prems have d: "distinct is" "i \<notin> set is" by simp_all
  show ?case
    unfolding step using Cons.IH[OF d(1), of h2] d(2)
    by (auto simp add: f hid pw)
qed

lemma UpdateWidths_hidden:
  assumes "stretch_enabled h" "j < count h" "j < length (column_widths h)"
  shows "isSectionHidden (UpdateWidths ops [] h) (int j) = (pixel_width ops h j = 0)"
  using assms by (simp add: UpdateWidths_def UpdateWidths_loop_hidden)


lemma UpdateWidths_fields:
  "count (UpdateWidths ops [] h) = count h \<and>
   column_widths (UpdateWidths ops [] h) = column_widths h \<and>
   view_width (UpdateWidths ops [] h) = view_width h"
  by (simp add: UpdateWidths_def UpdateWidths_loop_fields)

lemma NormaliseWidths_fields:
  assumes "NormaliseWidths ops [] h = Some h1"
  shows "count h1 = count h \<and> view_width h1 = view_width h \<and>
         stretch_enabled h1 = stretch_enabled h \<and>
         length (column_widths h1) = length (column_widths h)"
  using assms
  by (auto simp add: NormaliseWidths_def Let_def count_def split: if_splits)

lemma HideSection_stretch:
  assumes s: "stretch_enabled h"
    and g: "\<exists>i < count h. int i \<noteq> logical \<and> \<not> isSectionHidden h (int i) \<and>
                          0 < sectionSize h (int i)"
    and r: "HideSection ops logical h = Some h'"
    and j: "j < count h" "j < length (column_widths h)"
  shows "isSectionHidden h' (int j) = (pixel_width ops h' j = 0)"
proof -
  let ?h0 = "h\<lparr>column_widths := (column_widths h)[nat logical := fp_of_rat ops 0]\<rparr>"
  have ng: "\<not> list_all (\<lambda>i. \<not> (int i \<noteq> logical \<and> \<not> isSectionHidden h (int i) \<and>
                              sectionSize h (int i) > 0)) [0..<count h]"
    using g by (auto simp add: list_all_iff)
  from r ng s obtain h1 where h1: "NormaliseWidths ops [] ?h0 = Some h1"
    and h': "h' = UpdateWidths ops [] h1"
    by (auto simp add: HideSection_def split: if_splits option.splits)
  from NormaliseWidths_fields[OF h1]
  have f: "count h1 = count h" "view_width h1 = view_width h" "stretch_enabled h1"
    "length (column_widths h1) = length (column_widths h)"
    using s by (simp_all add: count_def)
  have "isSectionHidden (UpdateWidths ops [] h1) (int j) = (pixel_width ops h1 j = 0)"
    using f j by (intro UpdateWidths_hidden) simp_all
  moreover have "pixel_width ops h' j = pixel_width ops h1 j"
    by (simp add: pixel_width_def h' UpdateWidths_fields)
  ultimately show ?thesis by (simp add: h')
qed

text \<open>
  C8. \<open>HideSection\<close> is to never hide the last visible column, so that after any sequence
  of calls at least one section remains visible. The code does not keep this in stretch
  mode. The widget is 0 pixels wide and shows two sections, each with half of the width.
  \<open>HideSection(0)\<close> passes the check, since section 1 is shown with a positive size, sets
  the width of column 0 to 0, normalises the widths to 0 and 1, and \<open>UpdateWidths\<close> then
  hides both sections, as both are 0 pixels wide. After this one call no section is
  visible.
\<close>

theorem HideSection_hides_every_section:
  "some_visible narrow_header \<and>
   HideSection rat_ops 0 narrow_header =
     Some (narrow_header\<lparr>column_widths := [0, 1],
             sections := [\<lparr>section_hidden = True, section_size = 50\<rparr>,
                          \<lparr>section_hidden = True, section_size = 50\<rparr>]\<rparr>) \<and>
   \<not> some_visible
       (narrow_header\<lparr>column_widths := [0, 1],
          sections := [\<lparr>section_hidden = True, section_size = 50\<rparr>,
                       \<lparr>section_hidden = True, section_size = 50\<rparr>]\<rparr>)"
proof (intro conjI)
  show "some_visible narrow_header"
    by (simp add: narrow_header_def some_visible_def isSectionHidden_def valid_index_def
        count_def header0_def numeral_2_eq_2)
  show "HideSection rat_ops 0 narrow_header =
     Some (narrow_header\<lparr>column_widths := [0, 1],
             sections := [\<lparr>section_hidden = True, section_size = 50\<rparr>,
                          \<lparr>section_hidden = True, section_size = 50\<rparr>]\<rparr>)"
    by (simp add: narrow_header_def HideSection_def header0_def count_def isSectionHidden_def
        sectionSize_def valid_index_def NormaliseWidths_def UpdateWidths_def rat_ops_def
        hideSection_def setSectionHidden_def qFuzzyCompare_rat_def trunc_rat_def Let_def)
  show "\<not> some_visible
       (narrow_header\<lparr>column_widths := [0, 1],
          sections := [\<lparr>section_hidden = True, section_size = 50\<rparr>,
                       \<lparr>section_hidden = True, section_size = 50\<rparr>]\<rparr>)"
    by (simp add: narrow_header_def some_visible_def isSectionHidden_def valid_index_def
        count_def header0_def numeral_2_eq_2)
qed

end
